theory Spec2Isabelle
  imports Complex_Main "HOL-Library.Char_ord" "HOL-Library.List_Lexorder"
    "HOL-Library.Product_Lexorder"
begin

section \<open>Weekly timesheet summary: a model of \<open>summary_mail/app.py\<close>\<close>

text \<open>
  The program reads one spreadsheet into a pandas data frame, renames its columns to a
  canonical schema, parses the date column, cuts the rows into the current and the next
  week, builds three tables and mails them. The model below follows the source function
  by function. What pandas and Python do is written out where the source depends on it:
  a data frame is a list of labelled columns (pandas allows two columns with one label,
  and the renaming can produce them), a raised exception is the left injection of a sum,
  and the parts of the libraries that are parsers and printers of text are fields of the
  record \<open>pylib\<close>.

  Idealisations: a float64 is a rational number (no rounding error, no infinities; the
  missing value NaN is a cell of its own), column labels are strings, and \<open>str.lower\<close>
  and \<open>str.strip\<close> act on ASCII.
\<close>

subsection \<open>Text\<close>

definition lower_char :: "char \<Rightarrow> char" where
  "lower_char c =
     (case map_of (zip ''ABCDEFGHIJKLMNOPQRSTUVWXYZ'' ''abcdefghijklmnopqrstuvwxyz'') c of
        None \<Rightarrow> c
      | Some l \<Rightarrow> l)"

definition lower :: "string \<Rightarrow> string" where
  "lower s = map lower_char s"

fun starts_with :: "string \<Rightarrow> string \<Rightarrow> bool" where
  "starts_with s [] = True"
| "starts_with [] (n # ns) = False"
| "starts_with (c # s) (n # ns) = (c = n \<and> starts_with s ns)"

text \<open>\<open>py_in n s\<close> is Python's \<open>n in s\<close> on strings: \<open>n\<close> occurs in \<open>s\<close> as a
  contiguous substring.\<close>

fun py_in :: "string \<Rightarrow> string \<Rightarrow> bool" where
  "py_in n [] = (n = [])"
| "py_in n (c # s) = (starts_with (c # s) n \<or> py_in n s)"

definition endswith :: "string \<Rightarrow> string \<Rightarrow> bool" where
  "endswith s suffix = starts_with (rev s) (rev suffix)"

definition is_space :: "char \<Rightarrow> bool" where
  "is_space c = (c \<in> set [CHR '' '', CHR 0x09, CHR 0x0A, CHR 0x0B, CHR 0x0C, CHR 0x0D,
                            CHR 0x1C, CHR 0x1D, CHR 0x1E, CHR 0x1F])"

definition strip :: "string \<Rightarrow> string" where
  "strip s = rev (dropWhile is_space (rev (dropWhile is_space s)))"

definition digit_char :: "nat \<Rightarrow> char" where
  "digit_char n = ''0123456789'' ! (n mod 10)"

fun str_nat :: "nat \<Rightarrow> string" where
  "str_nat n = (if n < 10 then [digit_char n] else str_nat (n div 10) @ [digit_char n])"

declare str_nat.simps [simp del]

definition str_int :: "int \<Rightarrow> string" where
  "str_int i = (if i < 0 then CHR ''-'' # str_nat (nat (- i)) else str_nat (nat i))"

subsection \<open>The column resolver (\<open>find_col\<close>, lines 27-33)\<close>

text \<open>The inner loop of \<open>find_col\<close>: \<open>for n in needles: if n in lc: return c\<close>.\<close>

fun any_needle :: "string \<Rightarrow> string list \<Rightarrow> bool" where
  "any_needle lc [] = False"
| "any_needle lc (n # needles) = (if py_in n lc then True else any_needle lc needles)"

text \<open>The outer loop: \<open>for c in cols: lc = str(c).lower(); ...\<close>, \<open>return None\<close> after it.\<close>

fun find_col :: "string list \<Rightarrow> string list \<Rightarrow> string option" where
  "find_col [] needles = None"
| "find_col (c # cols) needles =
     (if any_needle (lower c) needles then Some c else find_col cols needles)"

text \<open>The resolver as the specification words it, for comparison with \<open>find_col\<close>: the
  needles are tried in priority order, and the first needle that occurs in some column
  selects the first column it occurs in.\<close>

fun spec_find_col :: "string list \<Rightarrow> string list \<Rightarrow> string option" where
  "spec_find_col cols [] = None"
| "spec_find_col cols (n # needles) =
     (case find (\<lambda>c. py_in n (lower c)) cols of
        Some c \<Rightarrow> Some c
      | None \<Rightarrow> spec_find_col cols needles)"

text \<open>The needle lists of \<open>normalize_schema\<close>, lines 38-68.\<close>

definition date_needles :: "string list" where
  "date_needles = [''date'']"

definition cat_needles :: "string list" where
  "cat_needles = [''category'', ''cat'']"

definition sub_needles :: "string list" where
  "sub_needles = [''sub-category'', ''subcategory'', ''sub category'', ''subcat'']"

definition line_needles :: "string list" where
  "line_needles = [''line item'', ''line_item'', ''lineitem'', ''task'', ''activity'', ''li'']"

definition planned_li_needles :: "string list" where
  "planned_li_needles =
     [''planned li'', ''planned line'', ''planned items'', ''planned count'', ''planned'']"

definition actual_li_needles :: "string list" where
  "actual_li_needles =
     [''actual li'', ''actual line'', ''actual items'', ''actual count'', ''actual'']"

definition planned_eff_needles :: "string list" where
  "planned_eff_needles =
     [''planned effort'', ''planned efforts'', ''planned mins'', ''planned minutes'']"

definition actual_eff_needles :: "string list" where
  "actual_eff_needles =
     [''actual effort'', ''actual efforts'', ''actual mins'', ''actual minutes'']"

definition planned_det_needles :: "string list" where
  "planned_det_needles = [''planned details'', ''planned detail'', ''plan detail'', ''plan desc'']"

definition actual_det_needles :: "string list" where
  "actual_det_needles = [''actual details'', ''actual detail'', ''actual desc'']"

subsection \<open>Cells, exceptions and the library\<close>

text \<open>A cell of a data frame, as \<open>pandas.read_excel\<close> and the program produce them:
  the missing values NaN and NaT, text, Python integers and floats, booleans,
  \<open>pandas.Timestamp\<close>, \<open>datetime.datetime\<close> (also \<open>numpy.datetime64\<close>) and
  \<open>datetime.date\<close>. A point in time is a day (the proleptic Gregorian ordinal of Python's
  \<open>date.toordinal\<close>, day 1 being 0001-01-01) and the nanoseconds since its midnight.\<close>

datatype cell =
    CNaN
  | CNaT
  | CStr string
  | CInt int
  | CFloat rat
  | CBool bool
  | CStamp int nat
  | CDatetime int nat
  | CDate int

text \<open>The exceptions the program can meet. \<open>ValueError msg\<close> is raised by the source
  with that message; the others are raised inside pandas, Python or the mail transport.\<close>

datatype exn =
    ValueError string
  | LibValueError
  | LibTypeError
  | AttributeError
  | KeyError string
  | OverflowError
  | ReadError
  | TransportError

datatype num = NInt int | NFloat rat

text \<open>What the libraries do with text and with printing, left open: the two passes of
  \<open>pandas.to_datetime(s, errors="coerce")\<close> on a string (the flag is \<open>dayfirst\<close>; \<open>None\<close>
  is NaT), \<open>pandas.to_numeric(errors="coerce")\<close> on a string and on a cell that is
  neither a number nor missing (\<open>None\<close> is NaN), and \<open>str\<close> of a float, of a point in time
  and of a date.\<close>

record pylib =
  to_datetime_text :: "bool \<Rightarrow> string \<Rightarrow> (int \<times> nat) option"
  to_numeric_text :: "string \<Rightarrow> num option"
  to_numeric_obj :: "cell \<Rightarrow> num option"
  str_float :: "rat \<Rightarrow> string"
  str_stamp :: "int \<Rightarrow> nat \<Rightarrow> string"
  str_date :: "int \<Rightarrow> string"

definition bind_exn :: "exn + 'a \<Rightarrow> ('a \<Rightarrow> exn + 'b) \<Rightarrow> exn + 'b" where
  "bind_exn r f = (case r of Inl e \<Rightarrow> Inl e | Inr x \<Rightarrow> f x)"

text \<open>\<open>pandas.isna\<close> on a scalar.\<close>

fun isna :: "cell \<Rightarrow> bool" where
  "isna CNaN = True"
| "isna CNaT = True"
| "isna c = False"

text \<open>Python's \<open>str\<close> of a cell, which is also what \<open>astype(str)\<close> puts in place of it.\<close>

fun py_str :: "pylib \<Rightarrow> cell \<Rightarrow> string" where
  "py_str lib CNaN = ''nan''"
| "py_str lib CNaT = ''NaT''"
| "py_str lib (CStr s) = s"
| "py_str lib (CInt i) = str_int i"
| "py_str lib (CFloat r) = str_float lib r"
| "py_str lib (CBool b) = (if b then ''True'' else ''False'')"
| "py_str lib (CStamp d t) = str_stamp lib d t"
| "py_str lib (CDatetime d t) = str_stamp lib d t"
| "py_str lib (CDate d) = str_date lib d"

subsection \<open>Data frames\<close>

text \<open>A data frame: the number of rows and the columns in order, each a label and its
  cells. Labels may repeat.\<close>

record frame =
  nrows :: nat
  cols :: "(string \<times> cell list) list"

definition labels :: "frame \<Rightarrow> string list" where
  "labels df = map fst (cols df)"

text \<open>\<open>df.rename(columns={old: new})\<close>: every column labelled \<open>old\<close> gets the label
  \<open>new\<close>; a label that is not there is ignored.\<close>

definition rename_col :: "string \<Rightarrow> string \<Rightarrow> frame \<Rightarrow> frame" where
  "rename_col old new df =
     df\<lparr>cols := map (\<lambda>(l, cs). (if l = old then new else l, cs)) (cols df)\<rparr>"

text \<open>\<open>if c: df = df.rename(columns={c: new})\<close>, where \<open>c\<close> is what \<open>find_col\<close> returned:
  \<open>None\<close> and the empty label are false.\<close>

definition rename_found :: "string option \<Rightarrow> string \<Rightarrow> frame \<Rightarrow> frame" where
  "rename_found found new df =
     (case found of
        None \<Rightarrow> df
      | Some c \<Rightarrow> if c = [] then df else rename_col c new df)"

text \<open>\<open>df[l]\<close>: the columns labelled \<open>l\<close>, one in a frame with distinct labels.\<close>

definition get_cols :: "string \<Rightarrow> frame \<Rightarrow> cell list list" where
  "get_cols l df = map snd (filter (\<lambda>(l', cs). l' = l) (cols df))"

text \<open>\<open>df[l]\<close> where the program needs one column (a Series): the label missing is a
  \<open>KeyError\<close>, and the operations applied to a frame of several columns raise.\<close>

definition get_series :: "string \<Rightarrow> frame \<Rightarrow> exn + cell list" where
  "get_series l df =
     (case get_cols l df of
        [] \<Rightarrow> Inl (KeyError l)
      | [cs] \<Rightarrow> Inr cs
      | _ \<Rightarrow> Inl LibValueError)"

text \<open>\<open>df[l] = cs\<close>: replaces the cells of every column labelled \<open>l\<close>, or appends a new
  column when there is none.\<close>

definition set_col :: "string \<Rightarrow> cell list \<Rightarrow> frame \<Rightarrow> frame" where
  "set_col l cs df =
     (if l \<in> set (labels df)
      then df\<lparr>cols := map (\<lambda>(l', cs'). (l', if l' = l then cs else cs')) (cols df)\<rparr>
      else df\<lparr>cols := cols df @ [(l, cs)]\<rparr>)"

text \<open>\<open>if l not in df.columns: df[l] = v\<close> with a scalar \<open>v\<close>.\<close>

definition ensure_col :: "string \<Rightarrow> cell \<Rightarrow> frame \<Rightarrow> frame" where
  "ensure_col l v df =
     (if l \<in> set (labels df) then df else set_col l (replicate (nrows df) v) df)"

text \<open>\<open>df[mask]\<close>: the rows where the mask is true.\<close>

definition keep :: "bool list \<Rightarrow> 'a list \<Rightarrow> 'a list" where
  "keep m xs = map snd (filter fst (zip m xs))"

definition filter_rows :: "bool list \<Rightarrow> frame \<Rightarrow> frame" where
  "filter_rows m df =
     \<lparr>nrows = length (filter id (take (nrows df) m)),
      cols = map (\<lambda>(l, cs). (l, keep m cs)) (cols df)\<rparr>"

text \<open>\<open>df[ls]\<close> with a list of labels: for each label in turn the columns that carry it.\<close>

definition select_cols :: "string list \<Rightarrow> frame \<Rightarrow> frame" where
  "select_cols ls df =
     \<lparr>nrows = nrows df,
      cols = concat (map (\<lambda>l. filter (\<lambda>(l', cs). l' = l) (cols df)) ls)\<rparr>"

text \<open>\<open>df.empty\<close>: no rows or no columns.\<close>

definition empty_frame :: "frame \<Rightarrow> bool" where
  "empty_frame df = (nrows df = 0 \<or> cols df = [])"

subsection \<open>Schema normalisation (\<open>normalize_schema\<close>, lines 35-94)\<close>

definition no_date_message :: string where
  "no_date_message =
     ''No column containing '' @ [CHR 0x27] @ ''date'' @ [CHR 0x27] @
     '' found. Please include a Date column.''"

text \<open>Lines 36-71. Every \<open>find_col\<close> reads the labels of the frame as it came in, while
  the renamings act on the frame as it is by then.\<close>

definition resolve_columns :: "frame \<Rightarrow> exn + frame" where
  "resolve_columns df0 =
     (let cs = labels df0 in
      case find_col cs date_needles of
        None \<Rightarrow> Inl (ValueError no_date_message)
      | Some date_col \<Rightarrow>
          if date_col = [] then Inl (ValueError no_date_message)
          else
            (let df = rename_col date_col ''Date'' df0;
                 cat = find_col cs cat_needles;
                 sub = find_col cs sub_needles;
                 line = find_col cs line_needles;
                 df = rename_found cat ''Category'' df;
                 df = rename_found sub ''Subcategory'' df;
                 df = rename_found line ''Line Item'' df;
                 planned_li = find_col cs planned_li_needles;
                 actual_li = find_col cs actual_li_needles;
                 df = rename_found planned_li ''Planned LI'' df;
                 df = rename_found actual_li ''Actual LI'' df;
                 planned_eff = find_col cs planned_eff_needles;
                 actual_eff = find_col cs actual_eff_needles;
                 df = rename_found planned_eff ''Planned Efforts (mins)'' df;
                 df = rename_found actual_eff ''Actual Efforts (mins)'' df;
                 planned_det = find_col cs planned_det_needles;
                 actual_det = find_col cs actual_det_needles;
                 df = rename_found planned_det ''Planned Details'' df;
                 df = rename_found actual_det ''Actual Details'' df
             in Inr df))"

text \<open>Lines 74-82: the defaults of the columns that are still missing.\<close>

definition ensure_columns :: "frame \<Rightarrow> frame" where
  "ensure_columns df =
     (ensure_col ''Actual Details'' (CStr [])
     (ensure_col ''Planned Details'' (CStr [])
     (ensure_col ''Actual Efforts (mins)'' (CFloat 0)
     (ensure_col ''Planned Efforts (mins)'' (CFloat 0)
     (ensure_col ''Actual LI'' (CInt 0)
     (ensure_col ''Planned LI'' (CInt 0)
     (ensure_col ''Line Item'' (CStr [])
     (ensure_col ''Subcategory'' (CStr [])
     (ensure_col ''Category'' (CStr []) df)))))))))"

text \<open>\<open>pandas.to_numeric(errors="coerce")\<close> on one cell; \<open>None\<close> is NaN.\<close>

fun to_numeric :: "pylib \<Rightarrow> cell \<Rightarrow> num option" where
  "to_numeric lib (CInt i) = Some (NInt i)"
| "to_numeric lib (CFloat r) = Some (NFloat r)"
| "to_numeric lib CNaN = None"
| "to_numeric lib CNaT = None"
| "to_numeric lib (CStr s) = to_numeric_text lib s"
| "to_numeric lib c = to_numeric_obj lib c"

fun num_rat :: "num \<Rightarrow> rat" where
  "num_rat (NInt i) = of_int i"
| "num_rat (NFloat r) = r"

text \<open>\<open>astype(int)\<close> of a number: a float is cut towards zero.\<close>

definition trunc :: "rat \<Rightarrow> int" where
  "trunc r = (if 0 \<le> r then \<lfloor>r\<rfloor> else \<lceil>r\<rceil>)"

fun num_int :: "num \<Rightarrow> int" where
  "num_int (NInt i) = i"
| "num_int (NFloat r) = trunc r"

fun is_nint :: "num option \<Rightarrow> bool" where
  "is_nint (Some (NInt i)) = True"
| "is_nint n = False"

text \<open>\<open>pd.to_numeric(s, errors="coerce").fillna(0).astype(int)\<close> on a column.\<close>

definition coerce_int :: "pylib \<Rightarrow> cell list \<Rightarrow> cell list" where
  "coerce_int lib cs =
     map (\<lambda>c. case to_numeric lib c of None \<Rightarrow> CInt 0 | Some n \<Rightarrow> CInt (num_int n)) cs"

text \<open>\<open>pd.to_numeric(s, errors="coerce").fillna(0.0)\<close> on a column: the column stays an
  integer column when every cell is an integer, and is a float column otherwise.\<close>

definition coerce_float :: "pylib \<Rightarrow> cell list \<Rightarrow> cell list" where
  "coerce_float lib cs =
     (let ns = map (to_numeric lib) cs in
      if list_all is_nint ns
      then map (\<lambda>n. case n of Some m \<Rightarrow> CInt (num_int m) | None \<Rightarrow> CInt 0) ns
      else map (\<lambda>n. case n of Some m \<Rightarrow> CFloat (num_rat m) | None \<Rightarrow> CFloat 0) ns)"

text \<open>\<open>df[l] = f(df[l])\<close> for a function of one Series: with two columns labelled \<open>l\<close>,
  \<open>df[l]\<close> is a frame and \<open>pd.to_numeric\<close> raises a \<open>TypeError\<close>.\<close>

definition coerce_col :: "string \<Rightarrow> (cell list \<Rightarrow> cell list) \<Rightarrow> frame \<Rightarrow> exn + frame" where
  "coerce_col l f df =
     (case get_cols l df of
        [] \<Rightarrow> Inl (KeyError l)
      | [cs] \<Rightarrow> Inr (set_col l (f cs) df)
      | _ \<Rightarrow> Inl LibTypeError)"

text \<open>Lines 85-88.\<close>

definition coerce_numeric :: "pylib \<Rightarrow> frame \<Rightarrow> exn + frame" where
  "coerce_numeric lib df0 =
     bind_exn (coerce_col ''Planned LI'' (coerce_int lib) df0) (\<lambda>df1.
     bind_exn (coerce_col ''Actual LI'' (coerce_int lib) df1) (\<lambda>df2.
     bind_exn (coerce_col ''Planned Efforts (mins)'' (coerce_float lib) df2) (\<lambda>df3.
     coerce_col ''Actual Efforts (mins)'' (coerce_float lib) df3)))"

definition text_labels :: "string list" where
  "text_labels =
     [''Category'', ''Subcategory'', ''Line Item'', ''Planned Details'', ''Actual Details'']"

text \<open>\<open>df[c] = df[c].astype(str).fillna("")\<close>: every column labelled \<open>c\<close> is turned into
  text cell by cell. After \<open>astype(str)\<close> no cell is missing, so \<open>fillna\<close> changes nothing.\<close>

definition astype_str :: "pylib \<Rightarrow> string \<Rightarrow> frame \<Rightarrow> frame" where
  "astype_str lib c df =
     df\<lparr>cols := map (\<lambda>(l, cs). (l, if l = c then map (\<lambda>x. CStr (py_str lib x)) cs else cs))
                  (cols df)\<rparr>"

text \<open>Lines 90-92: the loop over the five text columns.\<close>

definition ensure_strings :: "pylib \<Rightarrow> frame \<Rightarrow> frame" where
  "ensure_strings lib df = foldl (\<lambda>d c. astype_str lib c d) df text_labels"

definition normalize_schema :: "pylib \<Rightarrow> frame \<Rightarrow> exn + frame" where
  "normalize_schema lib df0 =
     bind_exn (resolve_columns df0) (\<lambda>df1.
     bind_exn (coerce_numeric lib (ensure_columns df1)) (\<lambda>df2.
     Inr (ensure_strings lib df2)))"

subsection \<open>Calendar dates\<close>

text \<open>Python's \<open>date.toordinal\<close>, as \<open>datetime.py\<close> computes it from year, month and
  day (\<open>_ymd2ord\<close>).\<close>

definition is_leap :: "int \<Rightarrow> bool" where
  "is_leap y = (y mod 4 = 0 \<and> (y mod 100 \<noteq> 0 \<or> y mod 400 = 0))"

definition days_before_year :: "int \<Rightarrow> int" where
  "days_before_year year =
     (let y = year - 1 in y * 365 + y div 4 - y div 100 + y div 400)"

definition days_before_month :: "int \<Rightarrow> nat \<Rightarrow> int" where
  "days_before_month year month =
     [0, 0, 31, 59, 90, 120, 151, 181, 212, 243, 273, 304, 334] ! month
       + (if 2 < month \<and> is_leap year then 1 else 0)"

definition ymd2ord :: "int \<Rightarrow> nat \<Rightarrow> int \<Rightarrow> int" where
  "ymd2ord year month day = days_before_year year + days_before_month year month + day"

text \<open>\<open>date.min\<close> is 0001-01-01 and \<open>date.max\<close> is 9999-12-31; \<open>1970-01-01\<close> is the
  epoch of a timestamp and 1899-12-30 the origin of the spreadsheet serials. The lemma
  \<open>ordinals\<close> relates the numbers to \<open>ymd2ord\<close>.\<close>

definition min_ordinal :: int where
  "min_ordinal = 1"

definition max_ordinal :: int where
  "max_ordinal = 3652059"

definition unix_epoch :: int where
  "unix_epoch = 719163"

definition excel_epoch :: int where
  "excel_epoch = 693594"

text \<open>\<open>date.weekday()\<close>: Monday is 0.\<close>

definition weekday :: "int \<Rightarrow> int" where
  "weekday d = (d + 6) mod 7"

text \<open>\<open>d + timedelta(days=n)\<close> on a \<open>date\<close>: outside \<open>date.min\<close> to \<open>date.max\<close> Python
  raises \<open>OverflowError\<close>.\<close>

definition date_add :: "int \<Rightarrow> int \<Rightarrow> exn + int" where
  "date_add d n =
     (let r = d + n in
      if min_ordinal \<le> r \<and> r \<le> max_ordinal then Inr r else Inl OverflowError)"

subsection \<open>The week partitioner (\<open>get_week_ranges\<close>, lines 135-140)\<close>

definition get_week_ranges :: "int \<Rightarrow> exn + ((int \<times> int) \<times> (int \<times> int))" where
  "get_week_ranges today =
     bind_exn (date_add today (- weekday today)) (\<lambda>start_current.
     bind_exn (date_add start_current 6) (\<lambda>end_current.
     bind_exn (date_add end_current 1) (\<lambda>start_next.
     bind_exn (date_add start_next 6) (\<lambda>end_next.
     Inr ((start_current, end_current), (start_next, end_next))))))"

text \<open>The membership test of lines 247-248: \<open>(d >= start) & (d <= end)\<close>.\<close>

definition in_window :: "int \<times> int \<Rightarrow> int \<Rightarrow> bool" where
  "in_window w d = (fst w \<le> d \<and> d \<le> snd w)"

subsection \<open>The date normaliser (\<open>parse_any_date\<close>, lines 97-123)\<close>

text \<open>A \<open>pandas.Timestamp\<close> counts nanoseconds since 1970-01-01 in 64 bits, the least
  value standing for NaT.\<close>

definition ns_per_day :: int where
  "ns_per_day = 86400000000000"

definition stamp_ns :: "int \<Rightarrow> nat \<Rightarrow> int" where
  "stamp_ns d t = (d - unix_epoch) * ns_per_day + int t"

definition in_ns_bounds :: "int \<Rightarrow> nat \<Rightarrow> bool" where
  "in_ns_bounds d t = (- (2 ^ 63) < stamp_ns d t \<and> stamp_ns d t < 2 ^ 63)"

text \<open>\<open>pd.to_datetime(val, errors="coerce")\<close> on a \<open>datetime.datetime\<close> or a
  \<open>numpy.datetime64\<close>: a point in time that a timestamp cannot hold is coerced to NaT.\<close>

definition to_datetime_native :: "int \<Rightarrow> nat \<Rightarrow> (int \<times> nat) option" where
  "to_datetime_native d t = (if in_ns_bounds d t then Some (d, t) else None)"

text \<open>\<open>pd.to_datetime(val, unit="d", origin="1899-12-30", errors="coerce")\<close> on a number:
  the point in time \<open>val\<close> days after the origin. \<open>None\<close> stands for both outcomes of a
  value out of range, NaT and an exception.\<close>

definition to_datetime_serial :: "rat \<Rightarrow> (int \<times> nat) option" where
  "to_datetime_serial v =
     (let d = excel_epoch + \<lfloor>v\<rfloor>;
          t = nat \<lfloor>(v - of_int \<lfloor>v\<rfloor>) * of_int ns_per_day\<rfloor>
      in if in_ns_bounds d t then Some (d, t) else None)"

text \<open>\<open>Timestamp.normalize()\<close>: midnight of the same day. NaT has no such method, so
  \<open>pd.NaT.normalize()\<close> raises \<open>AttributeError\<close>.\<close>

definition normalize_stamp :: "(int \<times> nat) option \<Rightarrow> exn + cell" where
  "normalize_stamp ts =
     (case ts of
        None \<Rightarrow> Inl AttributeError
      | Some (d, t) \<Rightarrow> Inr (CStamp d 0))"

text \<open>Lines 113-123: the text of the value, month first and then day first.\<close>

definition parse_text :: "pylib \<Rightarrow> string \<Rightarrow> exn + cell" where
  "parse_text lib text =
     (let s = strip text in
      if s = [] then Inr CNaT
      else
        (let dt = to_datetime_text lib False s;
             dt = (if dt = None then to_datetime_text lib True s else dt)
         in if dt = None then Inr CNaT else normalize_stamp dt))"

text \<open>Lines 107-111: the \<open>try\<close> around the serial conversion; whatever it raises is
  swallowed and the text of the number is parsed instead.\<close>

definition parse_serial :: "pylib \<Rightarrow> cell \<Rightarrow> rat \<Rightarrow> exn + cell" where
  "parse_serial lib val v =
     (case normalize_stamp (to_datetime_serial v) of
        Inr c \<Rightarrow> Inr c
      | Inl e \<Rightarrow> parse_text lib (py_str lib val))"

definition parse_any_date :: "pylib \<Rightarrow> cell \<Rightarrow> exn + cell" where
  "parse_any_date lib val =
     (if isna val then Inr CNaT
      else
        (case val of
           CStamp d t \<Rightarrow> normalize_stamp (Some (d, t))
         | CDatetime d t \<Rightarrow> normalize_stamp (to_datetime_native d t)
         | CInt i \<Rightarrow> parse_serial lib val (of_int i)
         | CFloat r \<Rightarrow> parse_serial lib val r
         | _ \<Rightarrow> parse_text lib (py_str lib val)))"

subsection \<open>Arithmetic on cells\<close>

definition sequence_exn :: "(exn + 'a) list \<Rightarrow> exn + 'a list" where
  "sequence_exn rs =
     foldr (\<lambda>r acc. bind_exn r (\<lambda>x. bind_exn acc (\<lambda>xs. Inr (x # xs)))) rs (Inr [])"

fun cell_num :: "cell \<Rightarrow> rat option" where
  "cell_num (CInt i) = Some (of_int i)"
| "cell_num (CFloat r) = Some r"
| "cell_num c = None"

definition cell_val :: "cell \<Rightarrow> rat" where
  "cell_val c = (case cell_num c of Some r \<Rightarrow> r | None \<Rightarrow> 0)"

fun is_cint :: "cell \<Rightarrow> bool" where
  "is_cint (CInt i) = True"
| "is_cint c = False"

text \<open>A cell that arithmetic accepts: a number or NaN.\<close>

definition summable :: "cell \<Rightarrow> bool" where
  "summable c = (cell_num c \<noteq> None \<or> c = CNaN)"

text \<open>\<open>a == b\<close> on two cells of a comparison of columns: numbers by value, NaN equal to
  nothing.\<close>

definition cell_eq :: "cell \<Rightarrow> cell \<Rightarrow> bool" where
  "cell_eq a b =
     (case (cell_num a, cell_num b) of
        (Some x, Some y) \<Rightarrow> x = y
      | _ \<Rightarrow> \<not> isna a \<and> a = b)"

text \<open>\<open>a - b\<close> on two numbers: an integer when both are, a float otherwise.\<close>

definition minus_cells :: "cell \<Rightarrow> cell \<Rightarrow> cell" where
  "minus_cells a b =
     (case (a, b) of
        (CInt x, CInt y) \<Rightarrow> CInt (x - y)
      | _ \<Rightarrow> CFloat (cell_val a - cell_val b))"

text \<open>\<open>a - b\<close> on two cells of a difference of columns: NaN when one of them is missing,
  a \<open>TypeError\<close> on anything that is not a number.\<close>

definition cell_sub :: "cell \<Rightarrow> cell \<Rightarrow> exn + cell" where
  "cell_sub a b =
     (if cell_num a \<noteq> None \<and> cell_num b \<noteq> None then Inr (minus_cells a b)
      else if summable a \<and> summable b then Inr CNaN
      else Inl LibTypeError)"

definition series_sub :: "cell list \<Rightarrow> cell list \<Rightarrow> exn + cell list" where
  "series_sub xs ys = sequence_exn (map (\<lambda>(a, b). cell_sub a b) (zip xs ys))"

text \<open>The sum of a group: NaN is skipped; an integer column sums to an integer.\<close>

definition sum_cells :: "cell list \<Rightarrow> cell" where
  "sum_cells cs =
     (if list_all is_cint cs then CInt (\<Sum>c\<leftarrow>cs. \<lfloor>cell_val c\<rfloor>)
      else CFloat (\<Sum>c\<leftarrow>cs. cell_val c))"

text \<open>Rounding to \<open>n\<close> decimal places as \<open>DataFrame.round\<close> does it: to the nearest,
  a tie to the even neighbour. An integer cell is left as it is.\<close>

definition round_half_even :: "rat \<Rightarrow> int" where
  "round_half_even x =
     (let f = \<lfloor>x\<rfloor>; d = x - of_int f in
      if d < 1 / 2 then f
      else if 1 / 2 < d then f + 1
      else if even f then f else f + 1)"

definition round_dec :: "nat \<Rightarrow> rat \<Rightarrow> rat" where
  "round_dec n r = of_int (round_half_even (r * 10 ^ n)) / 10 ^ n"

definition round_cell :: "nat \<Rightarrow> cell \<Rightarrow> cell" where
  "round_cell n c = (case c of CFloat r \<Rightarrow> CFloat (round_dec n r) | _ \<Rightarrow> c)"

subsection \<open>The section builders (lines 143-188)\<close>

definition delta_sym :: string where
  "delta_sym = [CHR 0xCE, CHR 0x94]"

definition effort_delta_label :: string where
  "effort_delta_label = ''Effort '' @ delta_sym @ '' (mins)''"

definition effort_pct_label :: string where
  "effort_pct_label = ''Effort '' @ delta_sym @ '' %''"

definition li_delta_label :: string where
  "li_delta_label = ''LI '' @ delta_sym"

definition current_cols :: "string list" where
  "current_cols =
     [''Date_only'', ''Category'', ''Subcategory'', ''Line Item'',
      ''Planned LI'', ''Actual LI'', ''LI Match'',
      ''Planned Efforts (mins)'', ''Actual Efforts (mins)'', effort_delta_label,
      ''Planned Details'', ''Actual Details'']"

definition next_cols :: "string list" where
  "next_cols =
     [''Date_only'', ''Category'', ''Subcategory'', ''Line Item'', ''Planned LI'',
      ''Planned Efforts (mins)'', ''Planned Details'']"

definition deviation_cols :: "string list" where
  "deviation_cols =
     [''Category'', ''Subcategory'', ''Line Item'',
      ''Planned LI'', ''Actual LI'', li_delta_label,
      ''Planned Efforts (mins)'', ''Actual Efforts (mins)'', effort_delta_label,
      effort_pct_label]"

text \<open>\<open>"" if "Details" in c or "Category" in c else 0\<close>.\<close>

definition default_for :: "string \<Rightarrow> cell" where
  "default_for c = (if py_in ''Details'' c \<or> py_in ''Category'' c then CStr [] else CInt 0)"

text \<open>\<open>for c in cols: if c not in out.columns: out[c] = ...\<close>.\<close>

definition ensure_all :: "string list \<Rightarrow> frame \<Rightarrow> frame" where
  "ensure_all ls df = foldl (\<lambda>out c. ensure_col c (default_for c) out) df ls"

definition li_match :: "cell \<Rightarrow> cell \<Rightarrow> cell" where
  "li_match p a = CStr (if cell_eq p a then ''Match'' else ''Mismatch'')"

definition current_week_rows :: "frame \<Rightarrow> exn + frame" where
  "current_week_rows df =
     bind_exn (get_series ''Planned LI'' df) (\<lambda>planned_li.
     bind_exn (get_series ''Actual LI'' df) (\<lambda>actual_li.
     (let out = set_col ''LI Match'' (map (\<lambda>(p, a). li_match p a) (zip planned_li actual_li)) df
      in
     bind_exn (get_series ''Actual Efforts (mins)'' out) (\<lambda>actual_eff.
     bind_exn (get_series ''Planned Efforts (mins)'' out) (\<lambda>planned_eff.
     bind_exn (series_sub actual_eff planned_eff) (\<lambda>delta.
     Inr (select_cols current_cols
            (ensure_all current_cols (set_col effort_delta_label delta out)))))))))"

definition next_week_rows :: "frame \<Rightarrow> frame" where
  "next_week_rows df = select_cols next_cols (ensure_all next_cols df)"

text \<open>A key column of the grouping: one column of text. (The program groups frames that
  \<open>normalize_schema\<close> has made, where the three key columns hold text; the order pandas
  gives to keys of mixed types is not modelled.)\<close>

definition cell_text :: "cell \<Rightarrow> exn + string" where
  "cell_text c = (case c of CStr s \<Rightarrow> Inr s | _ \<Rightarrow> Inl LibTypeError)"

definition key_series :: "string \<Rightarrow> frame \<Rightarrow> exn + string list" where
  "key_series l df = bind_exn (get_series l df) (\<lambda>cs. sequence_exn (map cell_text cs))"

definition num_series :: "string \<Rightarrow> frame \<Rightarrow> exn + cell list" where
  "num_series l df =
     bind_exn (get_series l df) (\<lambda>cs. if list_all summable cs then Inr cs else Inl LibTypeError)"

text \<open>The cells of one group: those of the rows whose key is \<open>k\<close>.\<close>

definition members :: "'k list \<Rightarrow> 'k \<Rightarrow> cell list \<Rightarrow> cell list" where
  "members keys k cs = map snd (filter (\<lambda>(k', c). k' = k) (zip keys cs))"

text \<open>Line 180: \<open>(delta / planned * 100.0) if planned else 0.0\<close>.\<close>

definition effort_pct :: "cell \<Rightarrow> cell \<Rightarrow> cell" where
  "effort_pct delta planned =
     (if cell_val planned \<noteq> 0 then CFloat (cell_val delta / cell_val planned * 100)
      else CFloat 0)"

text \<open>Lines 173-176: \<open>groupby(...).agg(...).reset_index()\<close>, one row for each key in
  ascending order.\<close>

definition group_sums ::
  "string list \<Rightarrow> string list \<Rightarrow> string list \<Rightarrow> cell list \<Rightarrow> cell list \<Rightarrow> cell list \<Rightarrow> cell list
     \<Rightarrow> frame" where
  "group_sums cat sub line pl al pe ae =
     (let keys = zip cat (zip sub line);
          gkeys = sort (remdups keys)
      in \<lparr>nrows = length gkeys,
           cols =
             [(''Category'', map (\<lambda>(c, s, l). CStr c) gkeys),
              (''Subcategory'', map (\<lambda>(c, s, l). CStr s) gkeys),
              (''Line Item'', map (\<lambda>(c, s, l). CStr l) gkeys),
              (''Planned LI'', map (\<lambda>k. sum_cells (members keys k pl)) gkeys),
              (''Actual LI'', map (\<lambda>k. sum_cells (members keys k al)) gkeys),
              (''Planned Efforts (mins)'', map (\<lambda>k. sum_cells (members keys k pe)) gkeys),
              (''Actual Efforts (mins)'', map (\<lambda>k. sum_cells (members keys k ae)) gkeys)]\<rparr>)"

text \<open>Lines 177-188 on the frame of the groups.\<close>

definition round_frame :: "(string \<times> nat) list \<Rightarrow> frame \<Rightarrow> frame" where
  "round_frame decimals df =
     df\<lparr>cols := map (\<lambda>(l, cs). (l, case map_of decimals l of
                                          None \<Rightarrow> cs
                                        | Some n \<Rightarrow> map (round_cell n) cs))
                  (cols df)\<rparr>"

definition add_deltas :: "frame \<Rightarrow> exn + frame" where
  "add_deltas g0 =
     bind_exn (get_series ''Actual LI'' g0) (\<lambda>al.
     bind_exn (get_series ''Planned LI'' g0) (\<lambda>pl.
     (let g1 = set_col li_delta_label (map (\<lambda>(a, p). minus_cells a p) (zip al pl)) g0 in
     bind_exn (get_series ''Actual Efforts (mins)'' g1) (\<lambda>ae.
     bind_exn (get_series ''Planned Efforts (mins)'' g1) (\<lambda>pe.
     (let delta = map (\<lambda>(a, p). minus_cells a p) (zip ae pe);
          g2 = set_col effort_delta_label delta g1;
          g3 = set_col effort_pct_label (map (\<lambda>(d, p). effort_pct d p) (zip delta pe)) g2;
          g4 = round_frame [(effort_delta_label, 2), (effort_pct_label, 1)] g3
      in Inr (select_cols deviation_cols g4)))))))"

definition deviation_summary :: "frame \<Rightarrow> exn + frame" where
  "deviation_summary df =
     (if empty_frame df then Inr \<lparr>nrows = 0, cols = map (\<lambda>l. (l, [])) deviation_cols\<rparr>
      else
        bind_exn (key_series ''Category'' df) (\<lambda>cat.
        bind_exn (key_series ''Subcategory'' df) (\<lambda>sub.
        bind_exn (key_series ''Line Item'' df) (\<lambda>line.
        bind_exn (num_series ''Planned LI'' df) (\<lambda>pl.
        bind_exn (num_series ''Actual LI'' df) (\<lambda>al.
        bind_exn (num_series ''Planned Efforts (mins)'' df) (\<lambda>pe.
        bind_exn (num_series ''Actual Efforts (mins)'' df) (\<lambda>ae.
        add_deltas (group_sums cat sub line pl al pe ae)))))))))"

subsection \<open>The renderer (lines 191-218)\<close>

definition sq :: string where
  "sq = [CHR 0x27]"

definition dq :: string where
  "dq = [CHR 0x22]"

definition nl :: string where
  "nl = [CHR 0x0A]"

definition no_data_div :: "string \<Rightarrow> string" where
  "no_data_div empty_msg =
     ''<div style='' @ sq @ ''padding:10px;background:#fff8f0;border-radius:6px;color:#92400e''
       @ sq @ ''>'' @ empty_msg @ ''</div>''"

definition th_html :: "string \<Rightarrow> string" where
  "th_html c =
     ''<th style='' @ sq @ ''padding:8px;text-align:left;border-bottom:1px solid #e6eefb''
       @ sq @ ''>'' @ c @ ''</th>''"

definition td_html :: "string \<Rightarrow> string" where
  "td_html v =
     ''<td style='' @ sq @ ''padding:8px;border-bottom:1px solid #f1f5f9'' @ sq @ ''>'' @ v
       @ ''</td>''"

definition tr_html :: "pylib \<Rightarrow> frame \<Rightarrow> nat \<Rightarrow> string" where
  "tr_html lib df i =
     (let bg = (if i mod 2 = 0 then ''#ffffff'' else ''#f8fafc'');
          tds = concat (map (\<lambda>(l, cs). td_html (py_str lib (cs ! i))) (cols df))
      in ''<tr style='' @ sq @ ''background:'' @ bg @ sq @ ''>'' @ tds @ ''</tr>'')"

definition html_table :: "pylib \<Rightarrow> frame \<Rightarrow> string \<Rightarrow> string" where
  "html_table lib df empty_msg =
     (if empty_frame df then no_data_div empty_msg
      else
        (let thead = concat (map th_html (labels df));
             rows_html = concat (map (tr_html lib df) [0..<nrows df])
         in ''<table style='' @ sq @ ''width:100%;border-collapse:collapse;font:13px Arial,Helvetica''
              @ sq @ ''>'' @ ''<thead><tr>'' @ thead @ ''</tr></thead>'' @ ''<tbody>'' @ rows_html
              @ ''</tbody></table>''))"

text \<open>The three sections of the mail, in the order of the source. \<open>now\<close> is the text of
  \<open>datetime.now()\<close> and the four dates are printed by \<open>str\<close>.\<close>

definition build_email_html ::
  "pylib \<Rightarrow> frame \<Rightarrow> frame \<Rightarrow> frame \<Rightarrow> int \<Rightarrow> int \<Rightarrow> int \<Rightarrow> int \<Rightarrow> string \<Rightarrow> string" where
  "build_email_html lib cur_df nxt_df dev_df start_c end_c start_n end_n now =
     nl @ ''    <div style='' @ dq @ ''font-family:Arial,Helvetica,sans-serif;color:#0f172a'' @ dq
        @ ''>'' @ nl
     @ ''      <h2>Weekly Summary Report</h2>'' @ nl
     @ ''      <div style='' @ dq @ ''color:#6b7280'' @ dq @ ''>Generated: '' @ now @ ''</div>'' @ nl
     @ nl
     @ ''      <h3>1) Current Week Statistics ('' @ str_date lib start_c @ '' to ''
        @ str_date lib end_c @ '')</h3>'' @ nl
     @ ''      '' @ html_table lib cur_df ''No current-week records'' @ nl
     @ nl
     @ ''      <h3 style='' @ dq @ ''margin-top:18px'' @ dq @ ''>2) Next Week Plan (''
        @ str_date lib start_n @ '' to '' @ str_date lib end_n @ '')</h3>'' @ nl
     @ ''      '' @ html_table lib nxt_df ''No next-week plan'' @ nl
     @ nl
     @ ''      <h3 style='' @ dq @ ''margin-top:18px'' @ dq
        @ ''>3) Plan vs Actual Deviation / Interference</h3>'' @ nl
     @ ''      '' @ html_table lib dev_df ''No deviation data'' @ nl
     @ ''    </div>'' @ nl
     @ ''    ''"

subsection \<open>The endpoint (\<open>load_xlsx\<close>, lines 126-132, and \<open>upload_timesheet\<close>, lines 222-280)\<close>

text \<open>An uploaded file is its name and what \<open>pandas.read_excel\<close> makes of its bytes: the
  first sheet as a frame, or an exception.\<close>

record request =
  receiver_email :: "string option"
  email :: "string option"
  upload :: "(string \<times> (exn + frame)) option"

record message =
  subject :: string
  sender :: string
  recipient :: string
  html_body :: string

text \<open>What the endpoint reads from outside the request: the clock, the configured sender
  address, and the mail transport, which delivers a message or raises.\<close>

record world =
  today :: int
  now_text :: string
  email_from :: string
  smtp :: "message \<Rightarrow> exn option"

text \<open>A response: a JSON error with its status code, an exception caught at line 279
  (status 500), or the acknowledgement of line 271 (status 200) with the two week ranges
  and the two row counts.\<close>

datatype response =
    ErrorResponse nat string
  | Failure exn
  | EmailSent string string nat nat

definition xlsx_message :: string where
  "xlsx_message = ''Only .xlsx files accepted.''"

definition required_message :: string where
  "required_message = ''receiver_email and .xlsx file required''"

definition no_dates_message :: string where
  "no_dates_message = ''No parsable dates found in '' @ sq @ ''Date'' @ sq @ '' column''"

definition load_xlsx :: "string \<times> (exn + frame) \<Rightarrow> exn + frame" where
  "load_xlsx file_storage =
     (let name = lower (fst file_storage) in
      if \<not> endswith name ''.xlsx'' then Inl (ValueError xlsx_message)
      else snd file_storage)"

text \<open>\<open>request.form.get("receiver_email") or request.form.get("email")\<close>.\<close>

definition receiver_of :: "request \<Rightarrow> string option" where
  "receiver_of req =
     (case receiver_email req of
        None \<Rightarrow> email req
      | Some r \<Rightarrow> if r = [] then email req else Some r)"

text \<open>\<open>df["Date_parsed"].dt.date\<close> on one cell.\<close>

definition dt_date :: "cell \<Rightarrow> cell" where
  "dt_date c = (case c of CStamp d t \<Rightarrow> CDate d | _ \<Rightarrow> CNaT)"

text \<open>The comparison of lines 247-248 on one cell of \<open>Date_only\<close>.\<close>

definition cell_in_window :: "int \<times> int \<Rightarrow> cell \<Rightarrow> bool" where
  "cell_in_window w c = (case c of CDate d \<Rightarrow> in_window w d | _ \<Rightarrow> False)"

definition range_text :: "pylib \<Rightarrow> int \<Rightarrow> int \<Rightarrow> string" where
  "range_text lib s e = str_date lib s @ '' to '' @ str_date lib e"

text \<open>Lines 250-277: the three tables, the mail and the acknowledgement. The second
  component lists the messages handed to the transport.\<close>

definition deliver ::
  "pylib \<Rightarrow> world \<Rightarrow> string \<Rightarrow> frame \<Rightarrow> frame \<Rightarrow> (int \<times> int) \<Rightarrow> (int \<times> int)
     \<Rightarrow> exn + (response \<times> message list)" where
  "deliver lib w receiver cur nxt wc wn =
     bind_exn (current_week_rows cur) (\<lambda>cur_stats.
     (let nxt_plan = next_week_rows nxt in
     bind_exn (deviation_summary cur) (\<lambda>dev_sum.
     (let body = build_email_html lib cur_stats nxt_plan dev_sum
                   (fst wc) (snd wc) (fst wn) (snd wn) (now_text w);
          msg = \<lparr>subject = ''Weekly Summary: '' @ range_text lib (fst wc) (snd wc),
                 sender = email_from w, recipient = receiver, html_body = body\<rparr>
      in case smtp w msg of
           Some e \<Rightarrow> Inr (Failure e, [msg])
         | None \<Rightarrow>
             Inr (EmailSent (range_text lib (fst wc) (snd wc)) (range_text lib (fst wn) (snd wn))
                    (nrows cur_stats) (nrows nxt_plan),
                  [msg])))))"

text \<open>Lines 235-248: the dates are parsed, a sheet without one date is refused, the rows
  without a date are dropped and the rest is cut into the two weeks.\<close>

definition partition_weeks ::
  "pylib \<Rightarrow> world \<Rightarrow> string \<Rightarrow> frame \<Rightarrow> exn + (response \<times> message list)" where
  "partition_weeks lib w receiver df0 =
     bind_exn (get_series ''Date'' df0) (\<lambda>dates.
     bind_exn (sequence_exn (map (parse_any_date lib) dates)) (\<lambda>parsed.
     if list_all isna parsed then Inr (ErrorResponse 400 no_dates_message, [])
     else
       (let df1 = set_col ''Date_parsed'' parsed df0;
            date_only = map dt_date parsed;
            df2 = set_col ''Date_only'' date_only df1;
            df = filter_rows (map (\<lambda>c. \<not> isna c) date_only) df2
        in
       bind_exn (get_week_ranges (today w)) (\<lambda>(wc, wn).
       bind_exn (get_series ''Date_only'' df) (\<lambda>ds.
       (let cur = filter_rows (map (cell_in_window wc) ds) df;
            nxt = filter_rows (map (cell_in_window wn) ds) df
        in deliver lib w receiver cur nxt wc wn))))))"

definition upload_timesheet :: "pylib \<Rightarrow> world \<Rightarrow> request \<Rightarrow> response \<times> message list" where
  "upload_timesheet lib w req =
     (case (receiver_of req, upload req) of
        (Some receiver, Some f) \<Rightarrow>
          if receiver = [] \<or> fst f = [] then (ErrorResponse 400 required_message, [])
          else
            (case bind_exn (load_xlsx f) (\<lambda>df_raw.
                  bind_exn (normalize_schema lib df_raw) (\<lambda>df.
                  partition_weeks lib w receiver df)) of
               Inl e \<Rightarrow> (Failure e, [])
             | Inr r \<Rightarrow> r)
      | _ \<Rightarrow> (ErrorResponse 400 required_message, []))"

subsection \<open>Notions used to state the properties\<close>

text \<open>The optional fields of the canonical schema: the label, the needles that resolve
  it (lines 44-68) and the default of a column that is missing (lines 74-82).\<close>

definition optional_fields :: "(string \<times> string list \<times> cell) list" where
  "optional_fields =
     [(''Category'', cat_needles, CStr []),
      (''Subcategory'', sub_needles, CStr []),
      (''Line Item'', line_needles, CStr []),
      (''Planned LI'', planned_li_needles, CInt 0),
      (''Actual LI'', actual_li_needles, CInt 0),
      (''Planned Efforts (mins)'', planned_eff_needles, CFloat 0),
      (''Actual Efforts (mins)'', actual_eff_needles, CFloat 0),
      (''Planned Details'', planned_det_needles, CStr []),
      (''Actual Details'', actual_det_needles, CStr [])]"

text \<open>A frame is well formed when every column has one cell for each row.\<close>

definition wf_frame :: "frame \<Rightarrow> bool" where
  "wf_frame df = list_all (\<lambda>(l, cs). length cs = nrows df) (cols df)"

text \<open>An instance of the library for evaluating the model on concrete sheets: it reads no
  text as a date or as a number, and prints dates as their ordinal.\<close>

definition strict_lib :: pylib where
  "strict_lib =
     \<lparr>to_datetime_text = (\<lambda>dayfirst s. None),
      to_numeric_text = (\<lambda>s. None),
      to_numeric_obj = (\<lambda>c. None),
      str_float = (\<lambda>r. str_int \<lfloor>r\<rfloor>),
      str_stamp = (\<lambda>d t. str_int d),
      str_date = str_int\<rparr>"



text \<open>A label that names one column of numbers (or NaN), and one that names one column of
  text.\<close>

fun is_cstr :: "cell \<Rightarrow> bool" where
  "is_cstr (CStr s) = True"
| "is_cstr c = False"

definition numeric_column :: "string \<Rightarrow> frame \<Rightarrow> bool" where
  "numeric_column l df = (case get_cols l df of [cs] \<Rightarrow> list_all summable cs | _ \<Rightarrow> False)"

definition text_column :: "string \<Rightarrow> frame \<Rightarrow> bool" where
  "text_column l df = (case get_cols l df of [cs] \<Rightarrow> list_all is_cstr cs | _ \<Rightarrow> False)"

section \<open>Properties\<close>

subsection \<open>Text\<close>



subsection \<open>The column resolver\<close>

lemma any_needle_iff: "any_needle lc ns \<longleftrightarrow> (\<exists>n\<in>set ns. py_in n lc)"
  by (induction ns) auto

lemma find_col_find:
  "find_col labs needles = find (\<lambda>c. \<exists>n\<in>set needles. py_in n (lower c)) labs"
  by (induction labs) (auto simp: any_needle_iff)

lemma find_col_None: "find_col labs needles = None \<Longrightarrow> c \<in> set labs \<Longrightarrow> \<not> any_needle (lower c) needles"
  by (induction labs) (auto split: if_splits)

lemma find_col_Some: "find_col labs needles = Some c \<Longrightarrow> c \<in> set labs \<and> any_needle (lower c) needles"
  by (induction labs) (auto split: if_splits)

text \<open>C1, as the code has it: \<open>find_col\<close> returns the first column, in the order of the
  columns, whose lowercased label contains any of the needles, and \<open>None\<close> when there is
  none. The order of the needles plays no part: two needle lists with the same elements
  select the same column.\<close>

theorem find_col_first_matching_column:
  "find_col labs needles = find (\<lambda>c. \<exists>n\<in>set needles. py_in n (lower c)) labs
   \<and> (\<forall>needles'. set needles' = set needles \<longrightarrow> find_col labs needles' = find_col labs needles)"
  by (simp add: find_col_find)

theorem find_col_first_matching_column_witness:
  "find_col [''Planned Efforts (mins)'', ''Planned LI''] [''planned'', ''planned li'']
     = find_col [''Planned Efforts (mins)'', ''Planned LI''] [''planned li'', ''planned'']
   \<and> find_col [''Planned Efforts (mins)'', ''Planned LI''] [''planned li'', ''planned'']
     = Some ''Planned Efforts (mins)''"
proof -
  have s: "set [''planned'', ''planned li''] = set [''planned li'', ''planned'']"
    by auto
  have "find_col [''Planned Efforts (mins)'', ''Planned LI''] [''planned'', ''planned li'']
     = find_col [''Planned Efforts (mins)'', ''Planned LI''] [''planned li'', ''planned'']"
    using find_col_first_matching_column
      [of "[''Planned Efforts (mins)'', ''Planned LI'']" "[''planned li'', ''planned'']"] s
    by blast
  moreover have "find_col [''Planned Efforts (mins)'', ''Planned LI''] [''planned li'', ''planned'']
     = Some ''Planned Efforts (mins)''"
    by (simp add: lower_def lower_char_def)
  ultimately show ?thesis by simp
qed

text \<open>C1 as the claim words it fails: with the needles of the planned line-item count,
  the code takes the column of the planned efforts because it stands first, while needle
  priority would take the column that contains the first needle; and with the two columns
  exchanged the code takes the other one.\<close>

theorem find_col_needle_priority_counterexample:
  "find_col [''Planned Efforts (mins)'', ''Planned LI''] planned_li_needles
     = Some ''Planned Efforts (mins)''
   \<and> spec_find_col [''Planned Efforts (mins)'', ''Planned LI''] planned_li_needles
     = Some ''Planned LI''
   \<and> find_col [''Planned LI'', ''Planned Efforts (mins)''] planned_li_needles
     = Some ''Planned LI''"
  by (simp add: planned_li_needles_def lower_def lower_char_def)

subsection \<open>Calendar dates and the week partitioner\<close>

lemma ordinals:
  "ymd2ord 1 1 1 = min_ordinal"
  "ymd2ord 9999 12 31 = max_ordinal"
  "ymd2ord 1970 1 1 = unix_epoch"
  "ymd2ord 1899 12 30 = excel_epoch"
  by (simp_all add: ymd2ord_def days_before_year_def days_before_month_def is_leap_def
      min_ordinal_def max_ordinal_def unix_epoch_def excel_epoch_def)

lemma weekday_range: "0 \<le> weekday d \<and> weekday d \<le> 6"
  by (simp add: weekday_def)

lemma weekday_monday: "weekday (d - weekday d) = 0"
  unfolding weekday_def by presburger

lemma date_add_ok:
  "min_ordinal \<le> d + n \<Longrightarrow> d + n \<le> max_ordinal \<Longrightarrow> date_add d n = Inr (d + n)"
  by (simp add: date_add_def)

lemma monday_lower: "min_ordinal \<le> ref \<Longrightarrow> min_ordinal \<le> ref - weekday ref"
  unfolding weekday_def min_ordinal_def by presburger

lemma get_week_ranges_ok:
  assumes "min_ordinal \<le> ref" and "ref - weekday ref + 13 \<le> max_ordinal"
  shows "get_week_ranges ref =
           Inr ((ref - weekday ref, ref - weekday ref + 6),
                (ref - weekday ref + 7, ref - weekday ref + 13))"
proof -
  let ?s = "ref - weekday ref"
  have lo: "min_ordinal \<le> ?s" using assms(1) by (rule monday_lower)
  have a: "date_add ref (- weekday ref) = Inr ?s"
    using date_add_ok [of ref "- weekday ref"] lo assms(2) by simp
  have b: "date_add ?s 6 = Inr (?s + 6)"
    using date_add_ok [of ?s 6] lo assms(2) by simp
  have c: "date_add (?s + 6) 1 = Inr (?s + 7)"
    using date_add_ok [of "?s + 6" 1] lo assms(2) by simp
  have d: "date_add (?s + 7) 6 = Inr (?s + 13)"
    using date_add_ok [of "?s + 7" 6] lo assms(2) by simp
  show ?thesis
    unfolding get_week_ranges_def by (simp add: a b c d bind_exn_def)
qed

text \<open>C5, as the code has it: for a reference date whose next week still ends on a date
  that exists (not after 9999-12-31), the current week starts on the reference date minus
  its weekday, which is a Monday, and ends 6 days later; the next week starts the day after
  and ends 6 days later; the reference date lies in the current week; no date lies in both
  windows, and together they are the 14 days from the first start to the last end.\<close>

theorem get_week_ranges_windows:
  assumes "min_ordinal \<le> ref" and "ref - weekday ref + 13 \<le> max_ordinal"
  shows "\<exists>sc ec sn en.
           get_week_ranges ref = Inr ((sc, ec), (sn, en))
           \<and> sc = ref - weekday ref \<and> ec = sc + 6 \<and> sn = ec + 1 \<and> en = sn + 6
           \<and> weekday sc = 0 \<and> in_window (sc, ec) ref
           \<and> (\<forall>d. \<not> (in_window (sc, ec) d \<and> in_window (sn, en) d))
           \<and> (\<forall>d. in_window (sc, en) d = (in_window (sc, ec) d \<or> in_window (sn, en) d))"
proof -
  have w: "0 \<le> weekday ref \<and> weekday ref \<le> 6" by (rule weekday_range)
  have "get_week_ranges ref =
           Inr ((ref - weekday ref, ref - weekday ref + 6),
                (ref - weekday ref + 7, ref - weekday ref + 13))"
    using assms by (rule get_week_ranges_ok)
  moreover have "weekday (ref - weekday ref) = 0" by (rule weekday_monday)
  moreover have "in_window (ref - weekday ref, ref - weekday ref + 6) ref"
    using w by (simp add: in_window_def)
  moreover have "\<forall>d. \<not> (in_window (ref - weekday ref, ref - weekday ref + 6) d
                    \<and> in_window (ref - weekday ref + 7, ref - weekday ref + 13) d)"
    by (simp add: in_window_def)
  moreover have "\<forall>d. in_window (ref - weekday ref, ref - weekday ref + 13) d =
          (in_window (ref - weekday ref, ref - weekday ref + 6) d
           \<or> in_window (ref - weekday ref + 7, ref - weekday ref + 13) d)"
    by (auto simp: in_window_def)
  ultimately show ?thesis by simp
qed

theorem get_week_ranges_windows_witness:
  "get_week_ranges (ymd2ord 2024 1 3) =
     Inr ((ymd2ord 2024 1 1, ymd2ord 2024 1 7), (ymd2ord 2024 1 8, ymd2ord 2024 1 14))
   \<and> weekday (ymd2ord 2024 1 3) = 2 \<and> weekday (ymd2ord 2024 1 1) = 0"
proof -
  have v: "ymd2ord 2024 1 3 = 738888" "ymd2ord 2024 1 1 = 738886" "ymd2ord 2024 1 7 = 738892"
    "ymd2ord 2024 1 8 = 738893" "ymd2ord 2024 1 14 = 738899"
    by (simp_all add: ymd2ord_def days_before_year_def days_before_month_def is_leap_def)
  have wd: "weekday 738888 = 2" "weekday 738886 = 0"
    by (simp_all add: weekday_def)
  have "min_ordinal \<le> 738888" and "738888 - weekday 738888 + 13 \<le> max_ordinal"
    by (simp_all add: wd min_ordinal_def max_ordinal_def)
  from get_week_ranges_windows [OF this]
  have "get_week_ranges 738888 = Inr ((738886, 738892), (738893, 738899))"
    by (auto simp: wd)
  then show ?thesis unfolding v wd by simp
qed

text \<open>C5 as the claim words it, for every reference date, fails at the end of the
  calendar: on 9999-12-31, a Friday, the current week would end after \<open>date.max\<close>, and
  \<open>start_current + timedelta(days=6)\<close> raises \<open>OverflowError\<close>.\<close>

theorem get_week_ranges_overflow_counterexample:
  "min_ordinal \<le> ymd2ord 9999 12 31 \<and> ymd2ord 9999 12 31 \<le> max_ordinal
   \<and> weekday (ymd2ord 9999 12 31) = 4
   \<and> get_week_ranges (ymd2ord 9999 12 31) = Inl OverflowError"
  by (simp add: ordinals get_week_ranges_def date_add_def bind_exn_def weekday_def
      min_ordinal_def max_ordinal_def)

subsection \<open>The date normaliser\<close>









text \<open>C4: the date normaliser does raise. A native \<open>datetime\<close> that a timestamp cannot
  hold, such as 3000-01-01 00:00, is coerced to NaT by \<open>pd.to_datetime\<close>, and the call of
  \<open>normalize\<close> on it at line 104 raises \<open>AttributeError\<close>; unlike the numeric branch, this
  branch has no \<open>try\<close>.\<close>

theorem parse_any_date_raises:
  "parse_any_date lib (CDatetime (ymd2ord 3000 1 1) 0) = Inl AttributeError"
  by (simp add: parse_any_date_def normalize_stamp_def to_datetime_native_def in_ns_bounds_def
      stamp_ns_def unix_epoch_def ns_per_day_def ymd2ord_def days_before_year_def
      days_before_month_def is_leap_def)

text \<open>Every other cell is normalised without an exception, to NaT or to midnight of a day.\<close>

lemma normalize_stamp_Some: "normalize_stamp (Some (d, t)) = Inr (CStamp d 0)"
  by (simp add: normalize_stamp_def)

lemma parse_text_total: "parse_text lib s = Inr CNaT \<or> (\<exists>d. parse_text lib s = Inr (CStamp d 0))"
  by (auto simp: parse_text_def Let_def normalize_stamp_def split: option.splits)

lemma parse_serial_total:
  "parse_serial lib val v = Inr CNaT \<or> (\<exists>d. parse_serial lib val v = Inr (CStamp d 0))"
  using parse_text_total [of lib "py_str lib val"]
  by (auto simp: parse_serial_def normalize_stamp_def split: option.splits sum.splits)

lemma parse_any_date_total_but_native:
  assumes "\<And>d t. val = CDatetime d t \<Longrightarrow> in_ns_bounds d t"
  shows "parse_any_date lib val = Inr CNaT \<or> (\<exists>d. parse_any_date lib val = Inr (CStamp d 0))"
proof (cases val)
  case (CInt i)
  then show ?thesis using parse_serial_total [of lib val "of_int i"]
    by (simp add: parse_any_date_def)
next
  case (CFloat r)
  then show ?thesis using parse_serial_total [of lib val r]
    by (simp add: parse_any_date_def)
next
  case (CDatetime d t)
  with assms have "in_ns_bounds d t" by simp
  with CDatetime show ?thesis
    by (simp add: parse_any_date_def to_datetime_native_def normalize_stamp_def)
qed (use parse_text_total in \<open>auto simp: parse_any_date_def normalize_stamp_def\<close>)

subsection \<open>Schema normalisation\<close>

lemma coerce_int_default: "coerce_int lib (replicate n (CInt 0)) = replicate n (CInt 0)"
  by (simp add: coerce_int_def)

lemma coerce_float_default: "coerce_float lib (replicate n (CFloat 0)) = replicate n (CFloat 0)"
  by (cases n) (simp_all add: coerce_float_def)

lemma astype_default:
  "map (\<lambda>x. CStr (py_str lib x)) (replicate n (CStr [])) = replicate n (CStr [])"
  by simp

lemmas needles_defs =
  date_needles_def cat_needles_def sub_needles_def line_needles_def planned_li_needles_def
  actual_li_needles_def planned_eff_needles_def actual_eff_needles_def planned_det_needles_def
  actual_det_needles_def

lemma scenario_resolve:
  "resolve_columns
     \<lparr>nrows = n,
      cols = [(''Activity Date'', ds), (''Cat'', cs), (''Task'', ts), (''Plan Count'', pc),
              (''Done Count'', dc), (''Plan Mins'', pm), (''Done Mins'', dm)]\<rparr>
   = Inr \<lparr>nrows = n,
          cols = [(''Date'', ds), (''Category'', cs), (''Task'', ts), (''Plan Count'', pc),
                  (''Done Count'', dc), (''Plan Mins'', pm), (''Done Mins'', dm)]\<rparr>"
  by (simp add: resolve_columns_def labels_def needles_defs lower_def lower_char_def
      rename_col_def rename_found_def)

lemma scenario_ensure:
  "ensure_columns
     \<lparr>nrows = n,
      cols = [(''Date'', ds), (''Category'', cs), (''Task'', ts), (''Plan Count'', pc),
              (''Done Count'', dc), (''Plan Mins'', pm), (''Done Mins'', dm)]\<rparr>
   = \<lparr>nrows = n,
      cols = [(''Date'', ds), (''Category'', cs), (''Task'', ts), (''Plan Count'', pc),
              (''Done Count'', dc), (''Plan Mins'', pm), (''Done Mins'', dm),
              (''Subcategory'', replicate n (CStr [])),
              (''Line Item'', replicate n (CStr [])),
              (''Planned LI'', replicate n (CInt 0)),
              (''Actual LI'', replicate n (CInt 0)),
              (''Planned Efforts (mins)'', replicate n (CFloat 0)),
              (''Actual Efforts (mins)'', replicate n (CFloat 0)),
              (''Planned Details'', replicate n (CStr [])),
              (''Actual Details'', replicate n (CStr []))]\<rparr>"
  by (simp add: ensure_columns_def ensure_col_def set_col_def labels_def)

lemma scenario_coerce:
  "coerce_numeric lib
     \<lparr>nrows = n,
      cols = [(''Date'', ds), (''Category'', cs), (''Task'', ts), (''Plan Count'', pc),
              (''Done Count'', dc), (''Plan Mins'', pm), (''Done Mins'', dm),
              (''Subcategory'', replicate n (CStr [])),
              (''Line Item'', replicate n (CStr [])),
              (''Planned LI'', replicate n (CInt 0)),
              (''Actual LI'', replicate n (CInt 0)),
              (''Planned Efforts (mins)'', replicate n (CFloat 0)),
              (''Actual Efforts (mins)'', replicate n (CFloat 0)),
              (''Planned Details'', replicate n (CStr [])),
              (''Actual Details'', replicate n (CStr []))]\<rparr>
   = Inr \<lparr>nrows = n,
      cols = [(''Date'', ds), (''Category'', cs), (''Task'', ts), (''Plan Count'', pc),
              (''Done Count'', dc), (''Plan Mins'', pm), (''Done Mins'', dm),
              (''Subcategory'', replicate n (CStr [])),
              (''Line Item'', replicate n (CStr [])),
              (''Planned LI'', replicate n (CInt 0)),
              (''Actual LI'', replicate n (CInt 0)),
              (''Planned Efforts (mins)'', replicate n (CFloat 0)),
              (''Actual Efforts (mins)'', replicate n (CFloat 0)),
              (''Planned Details'', replicate n (CStr [])),
              (''Actual Details'', replicate n (CStr []))]\<rparr>"
  by (simp add: coerce_numeric_def coerce_col_def get_cols_def set_col_def labels_def
      bind_exn_def coerce_int_default coerce_float_default)

lemma scenario_strings:
  "ensure_strings lib
     \<lparr>nrows = n,
      cols = [(''Date'', ds), (''Category'', cs), (''Task'', ts), (''Plan Count'', pc),
              (''Done Count'', dc), (''Plan Mins'', pm), (''Done Mins'', dm),
              (''Subcategory'', replicate n (CStr [])),
              (''Line Item'', replicate n (CStr [])),
              (''Planned LI'', replicate n (CInt 0)),
              (''Actual LI'', replicate n (CInt 0)),
              (''Planned Efforts (mins)'', replicate n (CFloat 0)),
              (''Actual Efforts (mins)'', replicate n (CFloat 0)),
              (''Planned Details'', replicate n (CStr [])),
              (''Actual Details'', replicate n (CStr []))]\<rparr>
   = \<lparr>nrows = n,
      cols = [(''Date'', ds), (''Category'', map (\<lambda>x. CStr (py_str lib x)) cs), (''Task'', ts),
              (''Plan Count'', pc), (''Done Count'', dc), (''Plan Mins'', pm), (''Done Mins'', dm),
              (''Subcategory'', replicate n (CStr [])),
              (''Line Item'', replicate n (CStr [])),
              (''Planned LI'', replicate n (CInt 0)),
              (''Actual LI'', replicate n (CInt 0)),
              (''Planned Efforts (mins)'', replicate n (CFloat 0)),
              (''Actual Efforts (mins)'', replicate n (CFloat 0)),
              (''Planned Details'', replicate n (CStr [])),
              (''Actual Details'', replicate n (CStr []))]\<rparr>"
  by (simp add: ensure_strings_def text_labels_def astype_str_def)

lemma scenario_normalize:
  "normalize_schema lib
     \<lparr>nrows = n,
      cols = [(''Activity Date'', ds), (''Cat'', cs), (''Task'', ts), (''Plan Count'', pc),
              (''Done Count'', dc), (''Plan Mins'', pm), (''Done Mins'', dm)]\<rparr>
   = Inr \<lparr>nrows = n,
      cols = [(''Date'', ds), (''Category'', map (\<lambda>x. CStr (py_str lib x)) cs), (''Task'', ts),
              (''Plan Count'', pc), (''Done Count'', dc), (''Plan Mins'', pm), (''Done Mins'', dm),
              (''Subcategory'', replicate n (CStr [])),
              (''Line Item'', replicate n (CStr [])),
              (''Planned LI'', replicate n (CInt 0)),
              (''Actual LI'', replicate n (CInt 0)),
              (''Planned Efforts (mins)'', replicate n (CFloat 0)),
              (''Actual Efforts (mins)'', replicate n (CFloat 0)),
              (''Planned Details'', replicate n (CStr [])),
              (''Actual Details'', replicate n (CStr []))]\<rparr>"
  unfolding normalize_schema_def
  by (simp only: scenario_resolve scenario_ensure scenario_coerce scenario_strings bind_exn_def
      sum.case)

lemma replicate_3: "replicate 3 x = [x, x, x]"
  by (simp add: numeral_3_eq_3)

text \<open>C2, as the code has it: of the seven columns of the scenario only "Activity Date"
  and "Cat" are resolved, to Date and Category (whose cells become text). "Plan Count",
  "Done Count", "Plan Mins" and "Done Mins" contain no needle of a numeric field (these
  all start with "planned" or "actual"), and "Task" is not reached; the five columns
  stay in the frame under their own labels. Subcategory, Line Item and the two Details
  fields are filled with the empty string, the two counts with 0 and the two efforts
  with 0.0.\<close>

theorem normalize_schema_scenario:
  "normalize_schema lib
     \<lparr>nrows = n,
      cols = [(''Activity Date'', ds), (''Cat'', cs), (''Task'', ts), (''Plan Count'', pc),
              (''Done Count'', dc), (''Plan Mins'', pm), (''Done Mins'', dm)]\<rparr>
   = Inr \<lparr>nrows = n,
      cols = [(''Date'', ds), (''Category'', map (\<lambda>x. CStr (py_str lib x)) cs), (''Task'', ts),
              (''Plan Count'', pc), (''Done Count'', dc), (''Plan Mins'', pm), (''Done Mins'', dm),
              (''Subcategory'', replicate n (CStr [])),
              (''Line Item'', replicate n (CStr [])),
              (''Planned LI'', replicate n (CInt 0)),
              (''Actual LI'', replicate n (CInt 0)),
              (''Planned Efforts (mins)'', replicate n (CFloat 0)),
              (''Actual Efforts (mins)'', replicate n (CFloat 0)),
              (''Planned Details'', replicate n (CStr [])),
              (''Actual Details'', replicate n (CStr []))]\<rparr>"
  by (rule scenario_normalize)

theorem normalize_schema_scenario_witness:
  "normalize_schema strict_lib
     \<lparr>nrows = 3,
      cols = [(''Activity Date'', [CStamp 738888 0, CStamp 738889 0, CStamp 738895 0]),
              (''Cat'', [CStr ''Dev'', CNaN, CStr ''Ops'']),
              (''Task'', [CStr ''Build'', CStr ''Test'', CStr ''Deploy'']),
              (''Plan Count'', [CInt 3, CInt 2, CInt 1]),
              (''Done Count'', [CInt 3, CInt 1, CInt 0]),
              (''Plan Mins'', [CInt 60, CInt 30, CInt 45]),
              (''Done Mins'', [CInt 50, CInt 30, CInt 0])]\<rparr>
   = Inr \<lparr>nrows = 3,
      cols = [(''Date'', [CStamp 738888 0, CStamp 738889 0, CStamp 738895 0]),
              (''Category'', [CStr ''Dev'', CStr ''nan'', CStr ''Ops'']),
              (''Task'', [CStr ''Build'', CStr ''Test'', CStr ''Deploy'']),
              (''Plan Count'', [CInt 3, CInt 2, CInt 1]),
              (''Done Count'', [CInt 3, CInt 1, CInt 0]),
              (''Plan Mins'', [CInt 60, CInt 30, CInt 45]),
              (''Done Mins'', [CInt 50, CInt 30, CInt 0]),
              (''Subcategory'', [CStr [], CStr [], CStr []]),
              (''Line Item'', [CStr [], CStr [], CStr []]),
              (''Planned LI'', [CInt 0, CInt 0, CInt 0]),
              (''Actual LI'', [CInt 0, CInt 0, CInt 0]),
              (''Planned Efforts (mins)'', [CFloat 0, CFloat 0, CFloat 0]),
              (''Actual Efforts (mins)'', [CFloat 0, CFloat 0, CFloat 0]),
              (''Planned Details'', [CStr [], CStr [], CStr []]),
              (''Actual Details'', [CStr [], CStr [], CStr []])]\<rparr>"
  using normalize_schema_scenario
    [of strict_lib 3 "[CStamp 738888 0, CStamp 738889 0, CStamp 738895 0]"
      "[CStr ''Dev'', CNaN, CStr ''Ops'']" "[CStr ''Build'', CStr ''Test'', CStr ''Deploy'']"
      "[CInt 3, CInt 2, CInt 1]" "[CInt 3, CInt 1, CInt 0]" "[CInt 60, CInt 30, CInt 45]"
      "[CInt 50, CInt 30, CInt 0]"]
  by (simp add: replicate_3)

text \<open>C2 as the claim words it fails: on a sheet of three rows with these columns the
  resolver finds no column for Planned LI, Actual LI, Planned Efforts and Actual Efforts,
  and for Line Item it finds "Activity Date" (needle "activity"), not "Task"; after the
  normalisation the Planned LI column holds the default 0 in every row, not the cells of
  "Plan Count", and the Line Item column holds the empty string, not the cells of "Task".\<close>

theorem normalize_schema_scenario_counterexample:
  "find_col [''Activity Date'', ''Cat'', ''Task'', ''Plan Count'', ''Done Count'', ''Plan Mins'',
             ''Done Mins''] planned_li_needles = None
   \<and> find_col [''Activity Date'', ''Cat'', ''Task'', ''Plan Count'', ''Done Count'', ''Plan Mins'',
             ''Done Mins''] actual_li_needles = None
   \<and> find_col [''Activity Date'', ''Cat'', ''Task'', ''Plan Count'', ''Done Count'', ''Plan Mins'',
             ''Done Mins''] planned_eff_needles = None
   \<and> find_col [''Activity Date'', ''Cat'', ''Task'', ''Plan Count'', ''Done Count'', ''Plan Mins'',
             ''Done Mins''] actual_eff_needles = None
   \<and> find_col [''Activity Date'', ''Cat'', ''Task'', ''Plan Count'', ''Done Count'', ''Plan Mins'',
             ''Done Mins''] line_needles = Some ''Activity Date''
   \<and> (case normalize_schema strict_lib
         \<lparr>nrows = 3,
          cols = [(''Activity Date'', [CStamp 738888 0, CStamp 738889 0, CStamp 738895 0]),
                  (''Cat'', [CStr ''Dev'', CStr ''Dev'', CStr ''Ops'']),
                  (''Task'', [CStr ''Build'', CStr ''Test'', CStr ''Deploy'']),
                  (''Plan Count'', [CInt 3, CInt 2, CInt 1]),
                  (''Done Count'', [CInt 3, CInt 1, CInt 0]),
                  (''Plan Mins'', [CInt 60, CInt 30, CInt 45]),
                  (''Done Mins'', [CInt 50, CInt 30, CInt 0])]\<rparr> of
         Inl e \<Rightarrow> False
       | Inr df \<Rightarrow>
           get_cols ''Planned LI'' df = [[CInt 0, CInt 0, CInt 0]]
           \<and> get_cols ''Plan Count'' df = [[CInt 3, CInt 2, CInt 1]]
           \<and> get_cols ''Line Item'' df = [[CStr [], CStr [], CStr []]]
           \<and> get_cols ''Task'' df = [[CStr ''Build'', CStr ''Test'', CStr ''Deploy'']])"
proof -
  have f: "find_col [''Activity Date'', ''Cat'', ''Task'', ''Plan Count'', ''Done Count'',
             ''Plan Mins'', ''Done Mins''] planned_li_needles = None"
    "find_col [''Activity Date'', ''Cat'', ''Task'', ''Plan Count'', ''Done Count'',
             ''Plan Mins'', ''Done Mins''] actual_li_needles = None"
    "find_col [''Activity Date'', ''Cat'', ''Task'', ''Plan Count'', ''Done Count'',
             ''Plan Mins'', ''Done Mins''] planned_eff_needles = None"
    "find_col [''Activity Date'', ''Cat'', ''Task'', ''Plan Count'', ''Done Count'',
             ''Plan Mins'', ''Done Mins''] actual_eff_needles = None"
    "find_col [''Activity Date'', ''Cat'', ''Task'', ''Plan Count'', ''Done Count'',
             ''Plan Mins'', ''Done Mins''] line_needles = Some ''Activity Date''"
    by (simp_all add: needles_defs lower_def lower_char_def)
  show ?thesis
    unfolding f
    using scenario_normalize
      [of strict_lib 3 "[CStamp 738888 0, CStamp 738889 0, CStamp 738895 0]"
        "[CStr ''Dev'', CStr ''Dev'', CStr ''Ops'']"
        "[CStr ''Build'', CStr ''Test'', CStr ''Deploy'']"
        "[CInt 3, CInt 2, CInt 1]" "[CInt 3, CInt 1, CInt 0]" "[CInt 60, CInt 30, CInt 45]"
        "[CInt 50, CInt 30, CInt 0]"]
    by (simp add: replicate_3 get_cols_def)
qed

subsection \<open>Frames\<close>

lemma bind_exn_Inr: "bind_exn (Inr x) f = f x"
  by (simp add: bind_exn_def)

lemma bind_exn_Inl: "bind_exn (Inl e) f = Inl e"
  by (simp add: bind_exn_def)

lemma bind_exn_eq_Inr:
  "bind_exn r f = Inr y \<longleftrightarrow> (\<exists>x. r = Inr x \<and> f x = Inr y)"
  by (cases r) (simp_all add: bind_exn_def)

lemma get_cols_Nil: "get_cols l df = [] \<longleftrightarrow> l \<notin> set (labels df)"
  by (force simp: get_cols_def labels_def filter_empty_conv)

lemma map_fst_relabel: "map fst (map (\<lambda>(l, cs). (l, g l cs)) xs) = map fst xs"
  by (induction xs) auto

lemma nrows_rename_col: "nrows (rename_col old new df) = nrows df"
  by (simp add: rename_col_def)

lemma nrows_rename_found: "nrows (rename_found found new df) = nrows df"
  by (simp add: rename_found_def nrows_rename_col split: option.splits)



lemma label_rename_col:
  "l \<in> set (labels (rename_col old new df)) \<Longrightarrow> l \<in> set (labels df) \<or> l = new"
  by (auto simp: rename_col_def labels_def split: if_splits)

lemma label_rename_found:
  "l \<in> set (labels (rename_found found new df)) \<Longrightarrow>
     l \<in> set (labels df) \<or> (l = new \<and> found \<noteq> None)"
  by (auto simp: rename_found_def split: option.splits if_splits dest: label_rename_col)

lemma nrows_set_col: "nrows (set_col l cs df) = nrows df"
  by (simp add: set_col_def)

lemma labels_set_col: "set (labels (set_col l cs df)) = insert l (set (labels df))"
proof (cases "l \<in> set (labels df)")
  case True
  have "map fst (map (\<lambda>(l', cs'). (l', if l' = l then cs else cs')) (cols df)) = map fst (cols df)"
    by (rule map_fst_relabel)
  with True show ?thesis by (auto simp: set_col_def labels_def)
next
  case False
  then show ?thesis by (simp add: set_col_def labels_def)
qed

lemma get_cols_set_col_other: "l' \<noteq> l \<Longrightarrow> get_cols l' (set_col l cs df) = get_cols l' df"
  by (induction "cols df" arbitrary: df)
     (auto simp: set_col_def get_cols_def labels_def filter_map comp_def case_prod_unfold
           intro!: arg_cong [where f = "map snd"] filter_cong)

lemma get_cols_set_col_new:
  "l \<notin> set (labels df) \<Longrightarrow> get_cols l (set_col l cs df) = [cs]"
  using get_cols_Nil [of l df] by (simp add: set_col_def get_cols_def)

lemma get_cols_set_col_single:
  "get_cols l df = [xs] \<Longrightarrow> get_cols l (set_col l cs df) = [cs]"
proof -
  assume a: "get_cols l df = [xs]"
  then have "l \<in> set (labels df)" using get_cols_Nil [of l df] by auto
  then have "get_cols l (set_col l cs df) = map (\<lambda>x. cs) (get_cols l df)"
    by (simp add: set_col_def get_cols_def filter_map comp_def case_prod_unfold)
  with a show ?thesis by simp
qed


lemma nrows_ensure_col: "nrows (ensure_col l v df) = nrows df"
  by (simp add: ensure_col_def nrows_set_col)

lemma labels_ensure_col: "set (labels (ensure_col l v df)) = insert l (set (labels df))"
  by (auto simp: ensure_col_def labels_set_col)

lemma get_cols_ensure_col:
  "get_cols l' (ensure_col l v df) =
     (if l' = l \<and> l \<notin> set (labels df) then [replicate (nrows df) v] else get_cols l' df)"
  by (auto simp: ensure_col_def get_cols_set_col_new get_cols_set_col_other)


lemma coerce_col_Inr:
  "coerce_col l f df = Inr df' \<Longrightarrow> \<exists>cs. get_cols l df = [cs] \<and> df' = set_col l (f cs) df"
  by (auto simp: coerce_col_def split: list.splits)

lemma coerce_col_single:
  "get_cols l df = [cs] \<Longrightarrow> coerce_col l f df = Inr (set_col l (f cs) df)"
  by (simp add: coerce_col_def)

lemma coerce_col_keeps:
  assumes "coerce_col l f df = Inr df'" and "get_cols L df = [xs]" and "L \<noteq> l \<or> f xs = xs"
  shows "get_cols L df' = [xs]"
proof -
  from coerce_col_Inr [OF assms(1)] obtain cs
    where c: "get_cols l df = [cs]" and d: "df' = set_col l (f cs) df" by blast
  show ?thesis
  proof (cases "L = l")
    case True
    with assms(2,3) c have "f cs = xs" by simp
    with True c d show ?thesis by (simp add: get_cols_set_col_single)
  next
    case False
    with d assms(2) show ?thesis by (simp add: get_cols_set_col_other)
  qed
qed

lemma coerce_col_nrows: "coerce_col l f df = Inr df' \<Longrightarrow> nrows df' = nrows df"
  by (auto dest!: coerce_col_Inr simp: nrows_set_col)


lemma nrows_astype_str: "nrows (astype_str lib c df) = nrows df"
  by (simp add: astype_str_def)

lemma get_cols_astype_str:
  "get_cols l (astype_str lib c df) =
     (if l = c then map (map (\<lambda>x. CStr (py_str lib x))) (get_cols l df) else get_cols l df)"
  by (induction "cols df" arbitrary: df)
     (auto simp: astype_str_def get_cols_def filter_map comp_def case_prod_unfold
           intro!: arg_cong [where f = "map snd"] filter_cong)


subsection \<open>The mandatory date column and the optional fields\<close>

lemma date_col_nonempty: "find_col labs date_needles = Some d \<Longrightarrow> d \<noteq> []"
  by (auto dest!: find_col_Some simp: date_needles_def lower_def)

lemma resolve_no_date:
  "find_col (labels df) date_needles = None \<Longrightarrow>
     resolve_columns df = Inl (ValueError no_date_message)"
  by (simp add: resolve_columns_def)

lemma normalize_no_date:
  "find_col (labels df) date_needles = None \<Longrightarrow>
     normalize_schema lib df = Inl (ValueError no_date_message)"
  by (simp add: normalize_schema_def resolve_no_date bind_exn_Inl)

lemma resolve_date:
  "find_col (labels df) date_needles \<noteq> None \<Longrightarrow> \<exists>df1. resolve_columns df = Inr df1"
  by (auto simp: resolve_columns_def Let_def dest: date_col_nonempty)

lemma resolve_nrows: "resolve_columns df = Inr df1 \<Longrightarrow> nrows df1 = nrows df"
  by (auto simp: resolve_columns_def Let_def nrows_rename_found nrows_rename_col
      split: option.splits if_splits)


lemma resolve_labels:
  assumes "resolve_columns df = Inr df1" and "l \<in> set (labels df1)"
  shows "l \<in> set (labels df) \<or> l = ''Date''
         \<or> (\<exists>ns v. (l, ns, v) \<in> set optional_fields \<and> find_col (labels df) ns \<noteq> None)"
proof -
  from assms(1) obtain d where
    df1: "df1 =
      rename_found (find_col (labels df) actual_det_needles) ''Actual Details''
     (rename_found (find_col (labels df) planned_det_needles) ''Planned Details''
     (rename_found (find_col (labels df) actual_eff_needles) ''Actual Efforts (mins)''
     (rename_found (find_col (labels df) planned_eff_needles) ''Planned Efforts (mins)''
     (rename_found (find_col (labels df) actual_li_needles) ''Actual LI''
     (rename_found (find_col (labels df) planned_li_needles) ''Planned LI''
     (rename_found (find_col (labels df) line_needles) ''Line Item''
     (rename_found (find_col (labels df) sub_needles) ''Subcategory''
     (rename_found (find_col (labels df) cat_needles) ''Category''
     (rename_col d ''Date'' df)))))))))"
    by (auto simp: resolve_columns_def Let_def split: option.splits if_splits)
  have f: "(''Category'', cat_needles, CStr []) \<in> set optional_fields"
    "(''Subcategory'', sub_needles, CStr []) \<in> set optional_fields"
    "(''Line Item'', line_needles, CStr []) \<in> set optional_fields"
    "(''Planned LI'', planned_li_needles, CInt 0) \<in> set optional_fields"
    "(''Actual LI'', actual_li_needles, CInt 0) \<in> set optional_fields"
    "(''Planned Efforts (mins)'', planned_eff_needles, CFloat 0) \<in> set optional_fields"
    "(''Actual Efforts (mins)'', actual_eff_needles, CFloat 0) \<in> set optional_fields"
    "(''Planned Details'', planned_det_needles, CStr []) \<in> set optional_fields"
    "(''Actual Details'', actual_det_needles, CStr []) \<in> set optional_fields"
    by (simp_all add: optional_fields_def)
  from assms(2) show ?thesis
    unfolding df1
    by (blast dest: label_rename_found label_rename_col intro: f)
qed

lemma canonical_label_matches:
  "(L, ns, v) \<in> set optional_fields \<Longrightarrow> any_needle (lower L) ns"
  by (auto simp: optional_fields_def needles_defs lower_def lower_char_def)

lemma optional_fields_functional:
  "(L, ns, v) \<in> set optional_fields \<Longrightarrow> (L, ns', v') \<in> set optional_fields \<Longrightarrow>
     ns' = ns \<and> v' = v"
  by (auto simp: optional_fields_def)

lemma optional_fields_not_date: "(''Date'', ns, v) \<notin> set optional_fields"
  by (simp add: optional_fields_def)

lemma unresolved_absent:
  assumes "(L, ns, v) \<in> set optional_fields" and "find_col (labels df) ns = None"
    and "resolve_columns df = Inr df1"
  shows "L \<notin> set (labels df1)"
proof
  assume "L \<in> set (labels df1)"
  from resolve_labels [OF assms(3) this]
  consider "L \<in> set (labels df)" | "L = ''Date''"
    | ns' v' where "(L, ns', v') \<in> set optional_fields" "find_col (labels df) ns' \<noteq> None"
    by blast
  then show False
  proof cases
    case 1
    with assms(2) have "\<not> any_needle (lower L) ns" by (rule find_col_None)
    with canonical_label_matches [OF assms(1)] show False by simp
  next
    case 2
    with assms(1) optional_fields_not_date show False by simp
  next
    case 3
    with optional_fields_functional [OF assms(1) 3(1)] assms(2) show False by simp
  qed
qed

lemma ensure_columns_nrows: "nrows (ensure_columns df) = nrows df"
  by (simp add: ensure_columns_def nrows_ensure_col)

lemma ensure_col_hit:
  "l \<notin> set (labels df) \<Longrightarrow> get_cols l (ensure_col l v df) = [replicate (nrows df) v]"
  by (simp add: get_cols_ensure_col)

lemma ensure_col_miss: "l' \<noteq> l \<Longrightarrow> get_cols l' (ensure_col l v df) = get_cols l' df"
  by (simp add: get_cols_ensure_col)

lemma ensure_col_absent:
  "l' \<notin> set (labels df) \<Longrightarrow> l' \<noteq> l \<Longrightarrow> l' \<notin> set (labels (ensure_col l v df))"
  by (simp add: labels_ensure_col)
lemma ensure_columns_default_all:
  "\<forall>(L, ns, v) \<in> set optional_fields.
     L \<notin> set (labels df1) \<longrightarrow> get_cols L (ensure_columns df1) = [replicate (nrows df1) v]"
  by (simp add: optional_fields_def ensure_columns_def ensure_col_hit ensure_col_miss
      ensure_col_absent nrows_ensure_col)

lemma ensure_columns_default:
  assumes "(L, ns, v) \<in> set optional_fields" and "L \<notin> set (labels df1)"
  shows "get_cols L (ensure_columns df1) = [replicate (nrows df1) v]"
  using ensure_columns_default_all [of df1] assms by blast
lemma default_survives_coercion:
  assumes "(L, ns, v) \<in> set optional_fields"
  shows "L \<noteq> ''Planned LI'' \<or> coerce_int lib (replicate n v) = replicate n v"
    and "L \<noteq> ''Actual LI'' \<or> coerce_int lib (replicate n v) = replicate n v"
    and "L \<noteq> ''Planned Efforts (mins)'' \<or> coerce_float lib (replicate n v) = replicate n v"
    and "L \<noteq> ''Actual Efforts (mins)'' \<or> coerce_float lib (replicate n v) = replicate n v"
  using assms by (auto simp: optional_fields_def coerce_int_default coerce_float_default)

lemma coerce_numeric_Inr:
  assumes "coerce_numeric lib df2 = Inr df3"
  obtains a b c where
    "coerce_col ''Planned LI'' (coerce_int lib) df2 = Inr a"
    "coerce_col ''Actual LI'' (coerce_int lib) a = Inr b"
    "coerce_col ''Planned Efforts (mins)'' (coerce_float lib) b = Inr c"
    "coerce_col ''Actual Efforts (mins)'' (coerce_float lib) c = Inr df3"
proof -
  from assms obtain a where
    a: "coerce_col ''Planned LI'' (coerce_int lib) df2 = Inr a" and
    ra: "bind_exn (coerce_col ''Actual LI'' (coerce_int lib) a) (\<lambda>df2.
           bind_exn (coerce_col ''Planned Efforts (mins)'' (coerce_float lib) df2) (\<lambda>df3.
           coerce_col ''Actual Efforts (mins)'' (coerce_float lib) df3)) = Inr df3"
    unfolding coerce_numeric_def by (subst (asm) bind_exn_eq_Inr) blast
  from ra obtain b where
    b: "coerce_col ''Actual LI'' (coerce_int lib) a = Inr b" and
    rb: "bind_exn (coerce_col ''Planned Efforts (mins)'' (coerce_float lib) b) (\<lambda>df3.
           coerce_col ''Actual Efforts (mins)'' (coerce_float lib) df3) = Inr df3"
    by (subst (asm) bind_exn_eq_Inr) blast
  from rb obtain c where
    c: "coerce_col ''Planned Efforts (mins)'' (coerce_float lib) b = Inr c" and
    d: "coerce_col ''Actual Efforts (mins)'' (coerce_float lib) c = Inr df3"
    by (subst (asm) bind_exn_eq_Inr) blast
  from a b c d show thesis by (rule that)
qed

lemma coerce_numeric_keeps_default:
  assumes "(L, ns, v) \<in> set optional_fields" and "get_cols L df2 = [replicate n v]"
    and "coerce_numeric lib df2 = Inr df3"
  shows "get_cols L df3 = [replicate n v]"
proof -
  from assms(3) obtain a b c where
    a: "coerce_col ''Planned LI'' (coerce_int lib) df2 = Inr a" and
    b: "coerce_col ''Actual LI'' (coerce_int lib) a = Inr b" and
    c: "coerce_col ''Planned Efforts (mins)'' (coerce_float lib) b = Inr c" and
    d: "coerce_col ''Actual Efforts (mins)'' (coerce_float lib) c = Inr df3"
    by (rule coerce_numeric_Inr)
  note s = default_survives_coercion [OF assms(1), of lib n]
  have ga: "get_cols L a = [replicate n v]"
    using a assms(2) s(1) by (rule coerce_col_keeps)
  have gb: "get_cols L b = [replicate n v]"
    using b ga s(2) by (rule coerce_col_keeps)
  have gc: "get_cols L c = [replicate n v]"
    using c gb s(3) by (rule coerce_col_keeps)
  show ?thesis
    using d gc s(4) by (rule coerce_col_keeps)
qed
lemma ensure_strings_keeps_default_all:
  "\<forall>(L, ns, v) \<in> set optional_fields.
     get_cols L df3 = [replicate n v] \<longrightarrow> get_cols L (ensure_strings lib df3) = [replicate n v]"
  by (simp add: optional_fields_def ensure_strings_def text_labels_def get_cols_astype_str)

lemma ensure_strings_keeps_default:
  assumes "(L, ns, v) \<in> set optional_fields" and "get_cols L df3 = [replicate n v]"
  shows "get_cols L (ensure_strings lib df3) = [replicate n v]"
  using ensure_strings_keeps_default_all [of df3 n lib] assms by blast
lemma unresolved_gets_default:
  assumes "(L, ns, v) \<in> set optional_fields" and "find_col (labels df) ns = None"
    and "normalize_schema lib df = Inr df'"
  shows "get_cols L df' = [replicate (nrows df) v]"
proof -
  from assms(3) obtain df1 df3 where
    r: "resolve_columns df = Inr df1" and
    c: "coerce_numeric lib (ensure_columns df1) = Inr df3" and
    s: "df' = ensure_strings lib df3"
    unfolding normalize_schema_def bind_exn_eq_Inr by auto
  have "L \<notin> set (labels df1)" using assms(1,2) r by (rule unresolved_absent)
  with assms(1) have "get_cols L (ensure_columns df1) = [replicate (nrows df1) v]"
    by (rule ensure_columns_default)
  with assms(1) have "get_cols L df3 = [replicate (nrows df1) v]"
    using c by (rule coerce_numeric_keeps_default)
  with assms(1) have "get_cols L df' = [replicate (nrows df1) v]"
    unfolding s by (rule ensure_strings_keeps_default)
  then show ?thesis by (simp add: resolve_nrows [OF r])
qed

lemma all_unresolved_succeeds:
  assumes "find_col (labels df) date_needles \<noteq> None"
    and "\<forall>(L, ns, v) \<in> set optional_fields. find_col (labels df) ns = None"
  shows "\<exists>df'. normalize_schema lib df = Inr df'"
proof -
  from resolve_date [OF assms(1)] obtain df1 where r: "resolve_columns df = Inr df1" by blast
  let ?n = "nrows df1"
  let ?e = "ensure_columns df1"
  have g: "get_cols L ?e = [replicate ?n v]" if "(L, ns, v) \<in> set optional_fields" for L ns v
  proof -
    from that assms(2) have "find_col (labels df) ns = None" by auto
    with that have "L \<notin> set (labels df1)" using r by (rule unresolved_absent)
    with that show ?thesis by (rule ensure_columns_default)
  qed
  have m: "(''Planned LI'', planned_li_needles, CInt 0) \<in> set optional_fields"
    "(''Actual LI'', actual_li_needles, CInt 0) \<in> set optional_fields"
    "(''Planned Efforts (mins)'', planned_eff_needles, CFloat 0) \<in> set optional_fields"
    "(''Actual Efforts (mins)'', actual_eff_needles, CFloat 0) \<in> set optional_fields"
    by (simp_all add: optional_fields_def)
  let ?a = "set_col ''Planned LI'' (coerce_int lib (replicate ?n (CInt 0))) ?e"
  let ?b = "set_col ''Actual LI'' (coerce_int lib (replicate ?n (CInt 0))) ?a"
  let ?c = "set_col ''Planned Efforts (mins)'' (coerce_float lib (replicate ?n (CFloat 0))) ?b"
  have a: "coerce_col ''Planned LI'' (coerce_int lib) ?e = Inr ?a"
    by (rule coerce_col_single) (rule g [OF m(1)])
  have "get_cols ''Actual LI'' ?a = [replicate ?n (CInt 0)]"
    by (simp add: get_cols_set_col_other g [OF m(2)])
  then have b: "coerce_col ''Actual LI'' (coerce_int lib) ?a = Inr ?b"
    by (rule coerce_col_single)
  have "get_cols ''Planned Efforts (mins)'' ?b = [replicate ?n (CFloat 0)]"
    by (simp add: get_cols_set_col_other g [OF m(3)])
  then have c: "coerce_col ''Planned Efforts (mins)'' (coerce_float lib) ?b = Inr ?c"
    by (rule coerce_col_single)
  have "get_cols ''Actual Efforts (mins)'' ?c = [replicate ?n (CFloat 0)]"
    by (simp add: get_cols_set_col_other g [OF m(4)])
  then have "\<exists>d. coerce_col ''Actual Efforts (mins)'' (coerce_float lib) ?c = Inr d"
    by (simp add: coerce_col_single)
  with a b c have "\<exists>d. coerce_numeric lib ?e = Inr d"
    by (simp add: coerce_numeric_def bind_exn_Inr)
  with r show ?thesis
    by (auto simp: normalize_schema_def bind_exn_Inr)
qed

lemma upload_no_date:
  assumes "find_col (labels df) date_needles = None"
    and "receiver_of req = Some r" and "r \<noteq> []"
    and "upload req = Some (name, Inr df)" and "name \<noteq> []"
    and "endswith (lower name) ''.xlsx''"
  shows "upload_timesheet lib w req = (Failure (ValueError no_date_message), [])"
  using assms
  by (simp add: upload_timesheet_def load_xlsx_def normalize_no_date bind_exn_Inr bind_exn_Inl)

text \<open>C7: a sheet without a column whose label contains "date" is refused by the schema
  normalisation with the \<open>ValueError\<close> of line 40, and the endpoint then answers with that
  error and hands nothing to the mail transport. Every other field is optional: a field
  that no column resolves gets one column of its default in every row whenever the
  normalisation returns, and the normalisation does return when the date column is there
  and no optional field is resolved.\<close>

theorem missing_date_column_rejected:
  "(find_col (labels df) date_needles = None \<longrightarrow>
      normalize_schema lib df = Inl (ValueError no_date_message)
      \<and> (\<forall>w req name r.
            receiver_of req = Some r \<and> r \<noteq> [] \<and> upload req = Some (name, Inr df)
            \<and> name \<noteq> [] \<and> endswith (lower name) ''.xlsx'' \<longrightarrow>
            upload_timesheet lib w req = (Failure (ValueError no_date_message), [])))
   \<and> (\<forall>(L, ns, v) \<in> set optional_fields.
        find_col (labels df) ns = None \<longrightarrow>
        (\<forall>df'. normalize_schema lib df = Inr df' \<longrightarrow> get_cols L df' = [replicate (nrows df) v]))
   \<and> (find_col (labels df) date_needles \<noteq> None
        \<and> (\<forall>(L, ns, v) \<in> set optional_fields. find_col (labels df) ns = None) \<longrightarrow>
      (\<exists>df'. normalize_schema lib df = Inr df'))"
proof (intro conjI impI allI)
  assume "find_col (labels df) date_needles = None"
  then show "normalize_schema lib df = Inl (ValueError no_date_message)"
    by (rule normalize_no_date)
next
  fix w req name r
  assume "find_col (labels df) date_needles = None"
    and "receiver_of req = Some r \<and> r \<noteq> [] \<and> upload req = Some (name, Inr df)
         \<and> name \<noteq> [] \<and> endswith (lower name) ''.xlsx''"
  then show "upload_timesheet lib w req = (Failure (ValueError no_date_message), [])"
    by (intro upload_no_date) auto
next
  show "\<forall>(L, ns, v) \<in> set optional_fields.
        find_col (labels df) ns = None \<longrightarrow>
        (\<forall>df'. normalize_schema lib df = Inr df' \<longrightarrow> get_cols L df' = [replicate (nrows df) v])"
    by (auto intro: unresolved_gets_default)
next
  assume "find_col (labels df) date_needles \<noteq> None
        \<and> (\<forall>(L, ns, v) \<in> set optional_fields. find_col (labels df) ns = None)"
  then show "\<exists>df'. normalize_schema lib df = Inr df'"
    by (intro all_unresolved_succeeds) auto
qed

theorem missing_date_column_rejected_witness:
  "normalize_schema strict_lib \<lparr>nrows = 2, cols = [(''Day'', [CInt 1, CInt 2])]\<rparr>
     = Inl (ValueError no_date_message)
   \<and> upload_timesheet strict_lib
         \<lparr>today = 738000, now_text = [], email_from = [], smtp = (\<lambda>m. None)\<rparr>
         \<lparr>receiver_email = Some ''a@b.c'', email = None,
          upload = Some (''Plan.XLSX'', Inr \<lparr>nrows = 2, cols = [(''Day'', [CInt 1, CInt 2])]\<rparr>)\<rparr>
       = (Failure (ValueError no_date_message), [])
   \<and> (\<exists>df'. normalize_schema strict_lib \<lparr>nrows = 2, cols = [(''Date'', [CInt 1, CInt 2])]\<rparr> = Inr df'
          \<and> get_cols ''Category'' df' = [[CStr [], CStr []]]
          \<and> get_cols ''Planned LI'' df' = [[CInt 0, CInt 0]]
          \<and> get_cols ''Actual Efforts (mins)'' df' = [[CFloat 0, CFloat 0]])"
proof -
  let ?a = "\<lparr>nrows = 2, cols = [(''Day'', [CInt 1, CInt 2])]\<rparr>"
  let ?b = "\<lparr>nrows = 2, cols = [(''Date'', [CInt 1, CInt 2])]\<rparr>"
  let ?w = "\<lparr>today = 738000, now_text = [], email_from = [], smtp = (\<lambda>m. None)\<rparr>"
  let ?r = "\<lparr>receiver_email = Some ''a@b.c'', email = None,
             upload = Some (''Plan.XLSX'', Inr ?a)\<rparr>"
  have na: "find_col (labels ?a) date_needles = None"
    by (simp add: labels_def date_needles_def lower_def lower_char_def)
  have nb: "find_col (labels ?b) date_needles \<noteq> None"
    by (simp add: labels_def date_needles_def lower_def lower_char_def)
  have ub: "\<forall>(L, ns, v) \<in> set optional_fields. find_col (labels ?b) ns = None"
    by (simp add: optional_fields_def labels_def needles_defs lower_def lower_char_def)
  have rq: "receiver_of ?r = Some ''a@b.c'' \<and> ''a@b.c'' \<noteq> [] \<and> upload ?r = Some (''Plan.XLSX'', Inr ?a)
            \<and> ''Plan.XLSX'' \<noteq> [] \<and> endswith (lower ''Plan.XLSX'') ''.xlsx''"
    by (simp add: receiver_of_def endswith_def lower_def lower_char_def)
  have m: "(''Category'', cat_needles, CStr []) \<in> set optional_fields"
    "(''Planned LI'', planned_li_needles, CInt 0) \<in> set optional_fields"
    "(''Actual Efforts (mins)'', actual_eff_needles, CFloat 0) \<in> set optional_fields"
    by (simp_all add: optional_fields_def)
  note ta = missing_date_column_rejected [of ?a strict_lib]
  note tb = missing_date_column_rejected [of ?b strict_lib]
  from ta na have a1: "normalize_schema strict_lib ?a = Inl (ValueError no_date_message)"
    by blast
  from ta na have "\<forall>w req name r.
            receiver_of req = Some r \<and> r \<noteq> [] \<and> upload req = Some (name, Inr ?a)
            \<and> name \<noteq> [] \<and> endswith (lower name) ''.xlsx'' \<longrightarrow>
            upload_timesheet strict_lib w req = (Failure (ValueError no_date_message), [])"
    by blast
  with rq have a2: "upload_timesheet strict_lib ?w ?r = (Failure (ValueError no_date_message), [])"
    by blast
  from tb nb ub obtain df' where d: "normalize_schema strict_lib ?b = Inr df'"
    by blast
  from tb have q: "\<forall>(L, ns, v) \<in> set optional_fields.
        find_col (labels ?b) ns = None \<longrightarrow>
        (\<forall>df'. normalize_schema strict_lib ?b = Inr df' \<longrightarrow> get_cols L df' = [replicate (nrows ?b) v])"
    by blast
  have "get_cols ''Category'' df' = [replicate (nrows ?b) (CStr [])]"
    using bspec [OF q m(1)] bspec [OF ub m(1)] d by simp
  moreover have "get_cols ''Planned LI'' df' = [replicate (nrows ?b) (CInt 0)]"
    using bspec [OF q m(2)] bspec [OF ub m(2)] d by simp
  moreover have "get_cols ''Actual Efforts (mins)'' df' = [replicate (nrows ?b) (CFloat 0)]"
    using bspec [OF q m(3)] bspec [OF ub m(3)] d by simp
  ultimately show ?thesis
    using a1 a2 d by (simp add: numeral_2_eq_2)
qed

subsection \<open>Missing cells of a text column\<close>






lemma absent_ensure_col:
  "l \<notin> set (labels (ensure_col l' v df)) \<Longrightarrow> l \<notin> set (labels df)"
  by (simp add: labels_ensure_col)





subsection \<open>Views of a week without records\<close>








lemma nrows_ensure_all: "nrows (ensure_all ls df) = nrows df"
  unfolding ensure_all_def by (induction ls arbitrary: df) (simp_all add: nrows_ensure_col)



lemma nrows_select_cols: "nrows (select_cols ls df) = nrows df"
  by (simp add: select_cols_def)













subsection \<open>The deviation summary\<close>















end
